theory Spec2Isabelle
  imports Main "HOL-Library.Word"
begin

section \<open>Errors\<close>

text \<open>
  Go errors are values. Every error site of the verified packages is a constructor:
  the sentinel errors of package transport, the two context errors, the errors of the
  libraries encoding/json and encoding/base64 that the code passes on, and the two forms
  of \<^verbatim>\<open>fmt.Errorf\<close> the code uses: a formatted text (\<open>Errorf\<close>) and a text that wraps
  a cause with \<^verbatim>\<open>%w\<close> (\<open>Wrapf\<close>, the text before the colon). Two formats also
  print a number: \<open>ConnectFailedStatus err code\<close> is "websocket connect failed: %w,
  status: %d", and \<open>ConnectFailedAfter n err\<close> is "connect failed after %d retries: %w",
  whose cause is \<^verbatim>\<open>nil\<close> when no attempt was made.
\<close>

datatype error =
    ErrNotConnected
  | ErrConnectionClosed
  | ContextCanceled
  | DeadlineExceeded
  | SyntaxError
  | UnmarshalTypeError string
  | CorruptInputError
  | SocketError string
  | Errorf string
  | Wrapf string error
  | ConnectFailedStatus error int
  | ConnectFailedAfter int "error option"

section \<open>Frames and the JSON library\<close>

text \<open>
  A frame is the byte content of one WebSocket message. The code never inspects the
  bytes itself: it hands them to \<^verbatim>\<open>json.Unmarshal\<close> and gets them from
  \<^verbatim>\<open>json.Marshal\<close>. The library's scanner is outside the repository, so a frame is
  represented by what the scanner makes of it: \<open>Garbage\<close> for bytes that are not one
  JSON value, \<open>Doc j\<close> for the JSON value \<open>j\<close>. Object members keep their order and
  their duplicates, as the decoder sees them.

  A number is the literal on the wire: \<open>IntLit n\<close> for a literal without fraction and
  exponent, \<open>DecLit s\<close> for any other literal (its text). A Go \<^verbatim>\<open>float64\<close> is
  represented by the literal that \<^verbatim>\<open>json.Marshal\<close> prints for it (a whole value
  prints as an integer literal, so zero is \<open>IntLit 0\<close>); negative zero, infinities and
  NaN are outside the model.
\<close>

datatype number = IntLit int | DecLit string

type_synonym float64 = number

datatype json =
    JNull
  | JBool bool
  | JNumber number
  | JString string
  | JArray "json list"
  | JObject "(string \<times> json) list"

datatype frame = Garbage | Doc json

text \<open>
  The decoder matches an object key with a struct field when their names are equal
  after case folding. For the ASCII field names of this protocol the fold maps
  \<open>a\<close>..\<open>z\<close> to \<open>A\<close>..\<open>Z\<close>, and the two non-ASCII runes that fold onto ASCII letters
  (U+017F onto S, U+212A onto K, here in UTF-8) to those letters.
\<close>

definition upper_table :: "(char \<times> char) list" where
  "upper_table = zip ''abcdefghijklmnopqrstuvwxyz'' ''ABCDEFGHIJKLMNOPQRSTUVWXYZ''"

definition upper_char :: "char \<Rightarrow> char" where
  "upper_char c = (case map_of upper_table c of Some u \<Rightarrow> u | None \<Rightarrow> c)"

fun foldName :: "string \<Rightarrow> string" where
  "foldName [] = []"
| "foldName (c # cs) =
     (if c = CHR 0xC5 \<and> take 1 cs = [CHR 0xBF] then CHR ''S'' # foldName (drop 1 cs)
      else if c = CHR 0xE2 \<and> take 2 cs = [CHR 0x84, CHR 0xAA]
        then CHR ''K'' # foldName (drop 2 cs)
      else upper_char c # foldName cs)"

definition names :: "string \<Rightarrow> string \<Rightarrow> bool" where
  "names key field = (foldName key = foldName field)"

text \<open>
  Decoding a JSON value into a field. A \<^verbatim>\<open>null\<close> leaves the field as it is; a value
  of the wrong kind is an \<^verbatim>\<open>UnmarshalTypeError\<close>. An integer field (Go \<^verbatim>\<open>int\<close> and
  \<^verbatim>\<open>int64\<close>, 64 bits) takes an integer literal in range only.
\<close>

definition set_string :: "string \<Rightarrow> json \<Rightarrow> string \<Rightarrow> error + string" where
  "set_string field j old =
     (case j of JString s \<Rightarrow> Inr s | JNull \<Rightarrow> Inr old | _ \<Rightarrow> Inl (UnmarshalTypeError field))"

definition set_int64 :: "string \<Rightarrow> json \<Rightarrow> 64 word \<Rightarrow> error + 64 word" where
  "set_int64 field j old =
     (case j of
        JNumber (IntLit n) \<Rightarrow>
          if - (2 ^ 63) \<le> n \<and> n < 2 ^ 63 then Inr (word_of_int n)
          else Inl (UnmarshalTypeError field)
      | JNull \<Rightarrow> Inr old
      | _ \<Rightarrow> Inl (UnmarshalTypeError field))"

definition set_float64 :: "string \<Rightarrow> json \<Rightarrow> float64 \<Rightarrow> error + float64" where
  "set_float64 field j old =
     (case j of JNumber l \<Rightarrow> Inr l | JNull \<Rightarrow> Inr old | _ \<Rightarrow> Inl (UnmarshalTypeError field))"

definition on_ok :: "('a \<Rightarrow> 'b) \<Rightarrow> error + 'a \<Rightarrow> error + 'b" where
  "on_ok f r = (case r of Inl e \<Rightarrow> Inl e | Inr x \<Rightarrow> Inr (f x))"

text \<open>
  Decoding an object into a struct: the members in order, each into the field it names,
  unknown keys skipped. The decoder keeps the first error and returns it at the end; no
  caller in this repository uses the struct when an error is returned, so the model
  returns the first error alone.
\<close>

fun decode_members ::
  "(string \<Rightarrow> json \<Rightarrow> 'a \<Rightarrow> error + 'a) \<Rightarrow> (string \<times> json) list \<Rightarrow> 'a \<Rightarrow> error + 'a" where
  "decode_members setf [] v = Inr v"
| "decode_members setf ((k, j) # kvs) v =
     (case setf k j v of Inl e \<Rightarrow> Inl e | Inr v' \<Rightarrow> decode_members setf kvs v')"

definition decode_struct ::
  "(string \<Rightarrow> json \<Rightarrow> 'a \<Rightarrow> error + 'a) \<Rightarrow> json \<Rightarrow> 'a \<Rightarrow> error + 'a" where
  "decode_struct setf j v =
     (case j of
        JNull \<Rightarrow> Inr v
      | JObject kvs \<Rightarrow> decode_members setf kvs v
      | _ \<Rightarrow> Inl (UnmarshalTypeError []))"

definition Unmarshal ::
  "(string \<Rightarrow> json \<Rightarrow> 'a \<Rightarrow> error + 'a) \<Rightarrow> frame \<Rightarrow> 'a \<Rightarrow> error + 'a" where
  "Unmarshal setf data v =
     (case data of Garbage \<Rightarrow> Inl SyntaxError | Doc j \<Rightarrow> decode_struct setf j v)"

section \<open>Package protocol: the messages\<close>

type_synonym MessageType = string

definition MessageTypeSessionConfig :: MessageType where
  "MessageTypeSessionConfig = ''session.config''"
definition MessageTypeAudioAppend :: MessageType where
  "MessageTypeAudioAppend = ''audio.append''"
definition MessageTypeTextAppend :: MessageType where
  "MessageTypeTextAppend = ''text.append''"
definition MessageTypeInputCommit :: MessageType where
  "MessageTypeInputCommit = ''input.commit''"
definition MessageTypeSessionEnd :: MessageType where
  "MessageTypeSessionEnd = ''session.end''"
definition MessageTypeSessionReady :: MessageType where
  "MessageTypeSessionReady = ''session.ready''"
definition MessageTypeSessionConfigDone :: MessageType where
  "MessageTypeSessionConfigDone = ''session.config_done''"
definition MessageTypeTranscriptPartial :: MessageType where
  "MessageTypeTranscriptPartial = ''transcript.partial''"
definition MessageTypeTranscriptFinal :: MessageType where
  "MessageTypeTranscriptFinal = ''transcript.final''"
definition MessageTypeAudioDelta :: MessageType where
  "MessageTypeAudioDelta = ''audio.delta''"
definition MessageTypeAudioDone :: MessageType where
  "MessageTypeAudioDone = ''audio.done''"
definition MessageTypeInputDone :: MessageType where
  "MessageTypeInputDone = ''input.done''"
definition MessageTypeProcessing :: MessageType where
  "MessageTypeProcessing = ''processing''"
definition MessageTypeError :: MessageType where
  "MessageTypeError = ''error''"

record SessionParams =
  Provider :: string
  Language :: string
  SampleRate :: "64 word"
  AudioFormat :: string
  VoiceID :: string
  Speed :: float64
  Pitch :: float64
  Volume :: float64

definition zero_SessionParams :: SessionParams where
  "zero_SessionParams =
     \<lparr>Provider = [], Language = [], SampleRate = 0, AudioFormat = [], VoiceID = [],
      Speed = IntLit 0, Pitch = IntLit 0, Volume = IntLit 0\<rparr>"

text \<open>
  The fourteen message structs. The first argument of every constructor is the struct's
  \<^verbatim>\<open>Type\<close> field, the others are its remaining fields in declaration order. A value of
  this type is what the Go code holds in an \<^verbatim>\<open>interface{}\<close>: a pointer to one of the
  structs.
\<close>

datatype message =
    SessionConfig MessageType SessionParams
  | AudioAppend MessageType string
  | TextAppend MessageType string
  | InputCommit MessageType
  | SessionEnd MessageType
  | SessionReady MessageType string
  | SessionConfigDone MessageType
  | TranscriptPartial MessageType string
  | TranscriptFinal MessageType string "64 word" "64 word"
  | AudioDelta MessageType string
  | AudioDone MessageType
  | InputDone MessageType
  | Processing MessageType
  | ErrorMessage MessageType string string

definition NewSessionReady :: "string \<Rightarrow> message" where
  "NewSessionReady sessionID = SessionReady MessageTypeSessionReady sessionID"

definition NewSessionConfigDone :: message where
  "NewSessionConfigDone = SessionConfigDone MessageTypeSessionConfigDone"

definition NewTranscriptPartial :: "string \<Rightarrow> message" where
  "NewTranscriptPartial text = TranscriptPartial MessageTypeTranscriptPartial text"

definition NewTranscriptFinal :: "string \<Rightarrow> 64 word \<Rightarrow> 64 word \<Rightarrow> message" where
  "NewTranscriptFinal text startTime endTime =
     TranscriptFinal MessageTypeTranscriptFinal text startTime endTime"



definition NewError :: "string \<Rightarrow> string \<Rightarrow> message" where
  "NewError code msg = ErrorMessage MessageTypeError code msg"

subsection \<open>Struct tags: decoding\<close>

fun SessionParams_field :: "string \<Rightarrow> json \<Rightarrow> SessionParams \<Rightarrow> error + SessionParams" where
  "SessionParams_field k j p =
     (if names k ''provider''
        then on_ok (\<lambda>x. p\<lparr>Provider := x\<rparr>) (set_string ''provider'' j (Provider p))
      else if names k ''language''
        then on_ok (\<lambda>x. p\<lparr>Language := x\<rparr>) (set_string ''language'' j (Language p))
      else if names k ''sample_rate''
        then on_ok (\<lambda>x. p\<lparr>SampleRate := x\<rparr>) (set_int64 ''sample_rate'' j (SampleRate p))
      else if names k ''audio_format''
        then on_ok (\<lambda>x. p\<lparr>AudioFormat := x\<rparr>) (set_string ''audio_format'' j (AudioFormat p))
      else if names k ''voice_id''
        then on_ok (\<lambda>x. p\<lparr>VoiceID := x\<rparr>) (set_string ''voice_id'' j (VoiceID p))
      else if names k ''speed''
        then on_ok (\<lambda>x. p\<lparr>Speed := x\<rparr>) (set_float64 ''speed'' j (Speed p))
      else if names k ''pitch''
        then on_ok (\<lambda>x. p\<lparr>Pitch := x\<rparr>) (set_float64 ''pitch'' j (Pitch p))
      else if names k ''volume''
        then on_ok (\<lambda>x. p\<lparr>Volume := x\<rparr>) (set_float64 ''volume'' j (Volume p))
      else Inr p)"

fun RawMessage_field :: "string \<Rightarrow> json \<Rightarrow> MessageType \<Rightarrow> error + MessageType" where
  "RawMessage_field k j t = (if names k ''type'' then set_string ''type'' j t else Inr t)"

fun message_field :: "string \<Rightarrow> json \<Rightarrow> message \<Rightarrow> error + message" where
  "message_field k j (SessionConfig t p) =
     (if names k ''type'' then on_ok (\<lambda>x. SessionConfig x p) (set_string ''type'' j t)
      else if names k ''session''
        then on_ok (\<lambda>x. SessionConfig t x) (decode_struct SessionParams_field j p)
      else Inr (SessionConfig t p))"
| "message_field k j (AudioAppend t a) =
     (if names k ''type'' then on_ok (\<lambda>x. AudioAppend x a) (set_string ''type'' j t)
      else if names k ''audio'' then on_ok (\<lambda>x. AudioAppend t x) (set_string ''audio'' j a)
      else Inr (AudioAppend t a))"
| "message_field k j (TextAppend t a) =
     (if names k ''type'' then on_ok (\<lambda>x. TextAppend x a) (set_string ''type'' j t)
      else if names k ''text'' then on_ok (\<lambda>x. TextAppend t x) (set_string ''text'' j a)
      else Inr (TextAppend t a))"
| "message_field k j (InputCommit t) =
     (if names k ''type'' then on_ok InputCommit (set_string ''type'' j t)
      else Inr (InputCommit t))"
| "message_field k j (SessionEnd t) =
     (if names k ''type'' then on_ok SessionEnd (set_string ''type'' j t)
      else Inr (SessionEnd t))"
| "message_field k j (SessionReady t sid) =
     (if names k ''type'' then on_ok (\<lambda>x. SessionReady x sid) (set_string ''type'' j t)
      else if names k ''session_id''
        then on_ok (\<lambda>x. SessionReady t x) (set_string ''session_id'' j sid)
      else Inr (SessionReady t sid))"
| "message_field k j (SessionConfigDone t) =
     (if names k ''type'' then on_ok SessionConfigDone (set_string ''type'' j t)
      else Inr (SessionConfigDone t))"
| "message_field k j (TranscriptPartial t a) =
     (if names k ''type'' then on_ok (\<lambda>x. TranscriptPartial x a) (set_string ''type'' j t)
      else if names k ''text'' then on_ok (\<lambda>x. TranscriptPartial t x) (set_string ''text'' j a)
      else Inr (TranscriptPartial t a))"
| "message_field k j (TranscriptFinal t a st en) =
     (if names k ''type'' then on_ok (\<lambda>x. TranscriptFinal x a st en) (set_string ''type'' j t)
      else if names k ''text''
        then on_ok (\<lambda>x. TranscriptFinal t x st en) (set_string ''text'' j a)
      else if names k ''start_time''
        then on_ok (\<lambda>x. TranscriptFinal t a x en) (set_int64 ''start_time'' j st)
      else if names k ''end_time''
        then on_ok (\<lambda>x. TranscriptFinal t a st x) (set_int64 ''end_time'' j en)
      else Inr (TranscriptFinal t a st en))"
| "message_field k j (AudioDelta t a) =
     (if names k ''type'' then on_ok (\<lambda>x. AudioDelta x a) (set_string ''type'' j t)
      else if names k ''audio'' then on_ok (\<lambda>x. AudioDelta t x) (set_string ''audio'' j a)
      else Inr (AudioDelta t a))"
| "message_field k j (AudioDone t) =
     (if names k ''type'' then on_ok AudioDone (set_string ''type'' j t)
      else Inr (AudioDone t))"
| "message_field k j (InputDone t) =
     (if names k ''type'' then on_ok InputDone (set_string ''type'' j t)
      else Inr (InputDone t))"
| "message_field k j (Processing t) =
     (if names k ''type'' then on_ok Processing (set_string ''type'' j t)
      else Inr (Processing t))"
| "message_field k j (ErrorMessage t c m) =
     (if names k ''type'' then on_ok (\<lambda>x. ErrorMessage x c m) (set_string ''type'' j t)
      else if names k ''code'' then on_ok (\<lambda>x. ErrorMessage t x m) (set_string ''code'' j c)
      else if names k ''message''
        then on_ok (\<lambda>x. ErrorMessage t c x) (set_string ''message'' j m)
      else Inr (ErrorMessage t c m))"

subsection \<open>Struct tags: encoding\<close>

definition omit_string :: "string \<Rightarrow> string \<Rightarrow> (string \<times> json) list" where
  "omit_string k s = (if s = [] then [] else [(k, JString s)])"

definition omit_int64 :: "string \<Rightarrow> 64 word \<Rightarrow> (string \<times> json) list" where
  "omit_int64 k w = (if w = 0 then [] else [(k, JNumber (IntLit (sint w)))])"

definition omit_float64 :: "string \<Rightarrow> float64 \<Rightarrow> (string \<times> json) list" where
  "omit_float64 k f = (if f = IntLit 0 then [] else [(k, JNumber f)])"

definition marshal_SessionParams :: "SessionParams \<Rightarrow> json" where
  "marshal_SessionParams p = JObject
     (omit_string ''provider'' (Provider p) @ omit_string ''language'' (Language p) @
      omit_int64 ''sample_rate'' (SampleRate p) @
      omit_string ''audio_format'' (AudioFormat p) @ omit_string ''voice_id'' (VoiceID p) @
      omit_float64 ''speed'' (Speed p) @ omit_float64 ''pitch'' (Pitch p) @
      omit_float64 ''volume'' (Volume p))"

fun marshal :: "message \<Rightarrow> json" where
  "marshal (SessionConfig t p) =
     JObject [(''type'', JString t), (''session'', marshal_SessionParams p)]"
| "marshal (AudioAppend t a) = JObject [(''type'', JString t), (''audio'', JString a)]"
| "marshal (TextAppend t a) = JObject [(''type'', JString t), (''text'', JString a)]"
| "marshal (InputCommit t) = JObject [(''type'', JString t)]"
| "marshal (SessionEnd t) = JObject [(''type'', JString t)]"
| "marshal (SessionReady t sid) =
     JObject [(''type'', JString t), (''session_id'', JString sid)]"
| "marshal (SessionConfigDone t) = JObject [(''type'', JString t)]"
| "marshal (TranscriptPartial t a) = JObject [(''type'', JString t), (''text'', JString a)]"
| "marshal (TranscriptFinal t a st en) =
     JObject ([(''type'', JString t), (''text'', JString a)] @
              omit_int64 ''start_time'' st @ omit_int64 ''end_time'' en)"
| "marshal (AudioDelta t a) = JObject [(''type'', JString t), (''audio'', JString a)]"
| "marshal (AudioDone t) = JObject [(''type'', JString t)]"
| "marshal (InputDone t) = JObject [(''type'', JString t)]"
| "marshal (Processing t) = JObject [(''type'', JString t)]"
| "marshal (ErrorMessage t c m) =
     JObject [(''type'', JString t), (''code'', JString c), (''message'', JString m)]"

section \<open>Package transport: the message codec\<close>

definition ParseMessageType :: "frame \<Rightarrow> error + MessageType" where
  "ParseMessageType data =
     (case Unmarshal RawMessage_field data [] of
        Inl err \<Rightarrow> Inl (Wrapf ''parse message type'' err)
      | Inr t \<Rightarrow> Inr t)"

definition ParseMessage :: "frame \<Rightarrow> error + message" where
  "ParseMessage data =
     (case ParseMessageType data of
        Inl err \<Rightarrow> Inl err
      | Inr msgType \<Rightarrow>
         (let alloc =
            (if msgType = MessageTypeSessionReady then Some (SessionReady [] [])
             else if msgType = MessageTypeTranscriptPartial then Some (TranscriptPartial [] [])
             else if msgType = MessageTypeTranscriptFinal then Some (TranscriptFinal [] [] 0 0)
             else if msgType = MessageTypeAudioDelta then Some (AudioDelta [] [])
             else if msgType = MessageTypeAudioDone then Some (AudioDone [])
             else if msgType = MessageTypeInputDone then Some (InputDone [])
             else if msgType = MessageTypeProcessing then Some (Processing [])
             else if msgType = MessageTypeError then Some (ErrorMessage [] [] [])
             else if msgType = MessageTypeSessionConfig
               then Some (SessionConfig [] zero_SessionParams)
             else if msgType = MessageTypeAudioAppend then Some (AudioAppend [] [])
             else if msgType = MessageTypeTextAppend then Some (TextAppend [] [])
             else if msgType = MessageTypeInputCommit then Some (InputCommit [])
             else if msgType = MessageTypeSessionEnd then Some (SessionEnd [])
             else None)
          in case alloc of
               None \<Rightarrow> Inl (Errorf (''unknown message type: '' @ msgType))
             | Some msg \<Rightarrow>
                (case Unmarshal message_field data msg of
                   Inl err \<Rightarrow> Inl (Wrapf ''parse message body'' err)
                 | Inr m \<Rightarrow> Inr m)))"

definition EncodeMessage :: "message \<Rightarrow> error + frame" where
  "EncodeMessage msg = Inr (Doc (marshal msg))"

definition NewSessionConfig :: "SessionParams \<Rightarrow> message" where
  "NewSessionConfig params = SessionConfig MessageTypeSessionConfig params"

definition NewAudioAppend :: "string \<Rightarrow> message" where
  "NewAudioAppend audioBase64 = AudioAppend MessageTypeAudioAppend audioBase64"

definition NewTextAppend :: "string \<Rightarrow> message" where
  "NewTextAppend text = TextAppend MessageTypeTextAppend text"

definition NewInputCommit :: message where
  "NewInputCommit = InputCommit MessageTypeInputCommit"


text \<open>
  The tag that belongs to a message's variant, and the content of its \<^verbatim>\<open>Type\<close> field.
  The constructors of packages protocol and transport make the two equal.
\<close>

fun tag_of :: "message \<Rightarrow> MessageType" where
  "tag_of (SessionConfig t p) = MessageTypeSessionConfig"
| "tag_of (AudioAppend t a) = MessageTypeAudioAppend"
| "tag_of (TextAppend t a) = MessageTypeTextAppend"
| "tag_of (InputCommit t) = MessageTypeInputCommit"
| "tag_of (SessionEnd t) = MessageTypeSessionEnd"
| "tag_of (SessionReady t sid) = MessageTypeSessionReady"
| "tag_of (SessionConfigDone t) = MessageTypeSessionConfigDone"
| "tag_of (TranscriptPartial t a) = MessageTypeTranscriptPartial"
| "tag_of (TranscriptFinal t a st en) = MessageTypeTranscriptFinal"
| "tag_of (AudioDelta t a) = MessageTypeAudioDelta"
| "tag_of (AudioDone t) = MessageTypeAudioDone"
| "tag_of (InputDone t) = MessageTypeInputDone"
| "tag_of (Processing t) = MessageTypeProcessing"
| "tag_of (ErrorMessage t c m) = MessageTypeError"


definition string_or_null :: "json \<Rightarrow> bool" where
  "string_or_null j = (case j of JString s \<Rightarrow> True | JNull \<Rightarrow> True | _ \<Rightarrow> False)"

definition object_or_null :: "json \<Rightarrow> bool" where
  "object_or_null j = (case j of JObject kvs \<Rightarrow> True | JNull \<Rightarrow> True | _ \<Rightarrow> False)"

section \<open>Package transport: the connection\<close>

text \<open>
  The connection owns the socket. The model keeps the fields that the session code
  can observe: the \<^verbatim>\<open>connected\<close> flag, whether \<^verbatim>\<open>ws\<close> is set, whether the close
  channel is closed, and the socket itself as the list of frames written to it
  (\<open>wire\<close>), the number of times it was closed (\<open>ws_closes\<close>), and what a write on it
  returns (\<open>ws_err\<close>, fixed by the network, not by the code). \<^verbatim>\<open>closeOnce\<close> guards the
  only two places that close \<^verbatim>\<open>closeCh\<close>, so it has run exactly when the channel is
  closed and needs no field of its own.
\<close>

record Conn =
  connected :: bool
  ws :: bool
  conn_closeCh :: bool
  wire :: "frame list"
  ws_closes :: nat
  ws_err :: "error option"
  connectStartAt :: "int option"
  connectedAt :: "int option"

definition NewConn :: Conn where
  "NewConn = \<lparr>connected = False, ws = False, conn_closeCh = False, wire = [], ws_closes = 0,
     ws_err = None, connectStartAt = None, connectedAt = None\<rparr>"

definition SendJSON :: "message \<Rightarrow> Conn \<Rightarrow> error option \<times> Conn" where
  "SendJSON v c =
     (if \<not> connected c \<or> \<not> ws c then (Some ErrNotConnected, c)
      else (case ws_err c of
              Some err \<Rightarrow> (Some err, c)
            | None \<Rightarrow> (None, c\<lparr>wire := wire c @ [Doc (marshal v)]\<rparr>)))"

text \<open>
  \<open>Receive\<close> is one \<^verbatim>\<open>select\<close> over four channels. Which of them is ready first is
  decided outside the code; the model takes the case the \<^verbatim>\<open>select\<close> took, with the
  value it received, and gives what \<open>Receive\<close> returns.
\<close>

datatype received =
    CtxDone error
  | CloseSignal
  | ErrorReceived error
  | MessageReceived frame

definition Receive :: "received \<Rightarrow> error + frame" where
  "Receive sel =
     (case sel of
        CtxDone err \<Rightarrow> Inl err
      | CloseSignal \<Rightarrow> Inl ErrConnectionClosed
      | ErrorReceived err \<Rightarrow> Inl err
      | MessageReceived msg \<Rightarrow> Inr msg)"


section \<open>Package stt: events and the recognition session\<close>

datatype EventType =
    EventReady | EventPartial | EventFinal | EventError
  | EventInputDone | EventProcessing | EventClosed

text \<open>
  The fields of \<^verbatim>\<open>RecognitionEvent\<close>, with the prefix \<open>ev_\<close>. Durations are Go's
  \<^verbatim>\<open>time.Duration\<close>: 64-bit counts of nanoseconds.
\<close>

record RecognitionEvent =
  ev_Type :: EventType
  ev_SessionID :: string
  ev_Text :: string
  ev_IsFinal :: bool
  ev_StartTime :: "64 word"
  ev_EndTime :: "64 word"
  ev_Error :: "error option"

definition zero_event :: RecognitionEvent where
  "zero_event = \<lparr>ev_Type = EventReady, ev_SessionID = [], ev_Text = [], ev_IsFinal = False,
     ev_StartTime = 0, ev_EndTime = 0, ev_Error = None\<rparr>"

definition NewReadyEvent :: "string \<Rightarrow> RecognitionEvent" where
  "NewReadyEvent sessionID = zero_event\<lparr>ev_Type := EventReady, ev_SessionID := sessionID\<rparr>"

definition NewPartialEvent :: "string \<Rightarrow> RecognitionEvent" where
  "NewPartialEvent text = zero_event\<lparr>ev_Type := EventPartial, ev_Text := text, ev_IsFinal := False\<rparr>"

definition NewFinalEvent :: "string \<Rightarrow> 64 word \<Rightarrow> 64 word \<Rightarrow> RecognitionEvent" where
  "NewFinalEvent text startTime endTime =
     zero_event\<lparr>ev_Type := EventFinal, ev_Text := text, ev_IsFinal := True,
       ev_StartTime := startTime, ev_EndTime := endTime\<rparr>"

definition NewErrorEvent :: "error \<Rightarrow> RecognitionEvent" where
  "NewErrorEvent err = zero_event\<lparr>ev_Type := EventError, ev_Error := Some err\<rparr>"

definition NewInputDoneEvent :: RecognitionEvent where
  "NewInputDoneEvent = zero_event\<lparr>ev_Type := EventInputDone\<rparr>"

definition NewProcessingEvent :: RecognitionEvent where
  "NewProcessingEvent = zero_event\<lparr>ev_Type := EventProcessing\<rparr>"

definition NewClosedEvent :: RecognitionEvent where
  "NewClosedEvent = zero_event\<lparr>ev_Type := EventClosed\<rparr>"

text \<open>
  The fields that the two session types share. \<open>params\<close> is what \<^verbatim>\<open>sendConfig\<close>
  assembles from \<^verbatim>\<open>Provider\<close> and \<^verbatim>\<open>opts\<close>, which no code changes after
  \<^verbatim>\<open>newSession\<close>. A channel of \<^verbatim>\<open>struct{}\<close> that is only ever closed is the flag
  "closed"; \<^verbatim>\<open>closeOnce\<close> is the flag "has run". \<open>panicked\<close> records a run-time
  panic of the goroutine that runs the code: a failed type assertion, or the close of
  a closed channel.
\<close>

record Session =
  ID :: string
  params :: SessionParams
  conn :: Conn
  closeCh :: bool
  closeOnce :: bool
  ready :: bool
  closed :: bool
  panicked :: bool

text \<open>
  The recognition session adds the event channel: its buffer (capacity 100, oldest
  first) and whether it has been closed.
\<close>

record STT = Session +
  eventsCh :: "RecognitionEvent list"
  eventsCh_closed :: bool

definition stt_newSession :: "Conn \<Rightarrow> SessionParams \<Rightarrow> STT" where
  "stt_newSession c p =
     \<lparr>ID = [], params = p, conn = c, closeCh = False, closeOnce = False, ready = False,
      closed = False, panicked = False, eventsCh = [], eventsCh_closed = False\<rparr>"

text \<open>
  \<^verbatim>\<open>sendEvent\<close> is a \<^verbatim>\<open>select\<close> with a send, a receive from \<^verbatim>\<open>closeCh\<close> and a
  default. When the buffer has room and \<^verbatim>\<open>closeCh\<close> is closed both cases are ready and
  the runtime takes one of them: \<open>pick\<close> says whether it takes the send. With a full
  buffer and an open \<^verbatim>\<open>closeCh\<close> the default case drops the event.
\<close>

definition sendEvent :: "bool \<Rightarrow> RecognitionEvent \<Rightarrow> STT \<Rightarrow> STT" where
  "sendEvent pick event s =
     (if length (eventsCh s) < 100
        then (if closeCh s
                then (if pick then s\<lparr>eventsCh := eventsCh s @ [event]\<rparr> else s)
              else s\<lparr>eventsCh := eventsCh s @ [event]\<rparr>)
      else s)"

definition stt_waitReady :: "received \<Rightarrow> bool \<Rightarrow> STT \<Rightarrow> error option \<times> STT" where
  "stt_waitReady sel pick s =
     (case Receive sel of
        Inl err \<Rightarrow> (Some (Wrapf ''wait session.ready'' err), s)
      | Inr data \<Rightarrow>
         (case ParseMessageType data of
            Inl err \<Rightarrow> (Some (Wrapf ''parse session.ready'' err), s)
          | Inr msgType \<Rightarrow>
             if msgType \<noteq> MessageTypeSessionReady
               then (Some (Errorf (''expected session.ready, got '' @ msgType)), s)
             else (case ParseMessage data of
                     Inl err \<Rightarrow> (Some (Wrapf ''parse session.ready body'' err), s)
                   | Inr (SessionReady t sessionID) \<Rightarrow>
                       (None, sendEvent pick (NewReadyEvent sessionID)
                                (s\<lparr>ID := sessionID, ready := True\<rparr>))
                   | Inr _ \<Rightarrow> (None, s\<lparr>panicked := True\<rparr>))))"

definition stt_sendConfig :: "STT \<Rightarrow> error option \<times> STT" where
  "stt_sendConfig s =
     (let (err, c) = SendJSON (NewSessionConfig (params s)) (conn s)
      in (err, s\<lparr>conn := c\<rparr>))"

text \<open>
  \<^verbatim>\<open>start\<close> returns \<^verbatim>\<open>nil\<close> exactly when it has launched the message loop: the result
  \<open>None\<close> stands for both.
\<close>

definition stt_start :: "received \<Rightarrow> bool \<Rightarrow> STT \<Rightarrow> error option \<times> STT" where
  "stt_start sel pick s =
     (case stt_waitReady sel pick s of
        (Some err, s1) \<Rightarrow> (Some err, s1)
      | (None, s1) \<Rightarrow>
         (case stt_sendConfig s1 of
            (Some err, s2) \<Rightarrow> (Some err, s2)
          | (None, s2) \<Rightarrow> (None, s2)))"

definition handlePartial :: "bool \<Rightarrow> frame \<Rightarrow> STT \<Rightarrow> STT" where
  "handlePartial pick data s =
     (case ParseMessage data of
        Inl err \<Rightarrow> s
      | Inr (TranscriptPartial t text) \<Rightarrow> sendEvent pick (NewPartialEvent text) s
      | Inr _ \<Rightarrow> s\<lparr>panicked := True\<rparr>)"

definition Millisecond :: "64 word" where
  "Millisecond = 1000000"

definition Second :: "64 word" where
  "Second = 1000000000"

definition handleFinal :: "bool \<Rightarrow> frame \<Rightarrow> STT \<Rightarrow> STT" where
  "handleFinal pick data s =
     (case ParseMessage data of
        Inl err \<Rightarrow> s
      | Inr (TranscriptFinal t text st en) \<Rightarrow>
          sendEvent pick (NewFinalEvent text (st * Millisecond) (en * Millisecond)) s
      | Inr _ \<Rightarrow> s\<lparr>panicked := True\<rparr>)"

definition stt_handleError :: "bool \<Rightarrow> frame \<Rightarrow> STT \<Rightarrow> STT" where
  "stt_handleError pick data s =
     (case ParseMessage data of
        Inl err \<Rightarrow> s
      | Inr (ErrorMessage t code msg) \<Rightarrow>
          sendEvent pick (NewErrorEvent (Errorf (''['' @ code @ ''] '' @ msg))) s
      | Inr _ \<Rightarrow> s\<lparr>panicked := True\<rparr>)"

definition stt_handleMessage :: "bool \<Rightarrow> frame \<Rightarrow> STT \<Rightarrow> STT" where
  "stt_handleMessage pick data s =
     (case ParseMessageType data of
        Inl err \<Rightarrow> s
      | Inr msgType \<Rightarrow>
          if msgType = MessageTypeTranscriptPartial then handlePartial pick data s
          else if msgType = MessageTypeTranscriptFinal then handleFinal pick data s
          else if msgType = MessageTypeInputDone then sendEvent pick NewInputDoneEvent s
          else if msgType = MessageTypeProcessing then sendEvent pick NewProcessingEvent s
          else if msgType = MessageTypeError then stt_handleError pick data s
          else s)"

text \<open>
  The message loop is a \<^verbatim>\<open>select\<close> in a \<^verbatim>\<open>for\<close>. The model runs it over the cases
  that the \<^verbatim>\<open>select\<close> takes, in order, each with the \<open>pick\<close> for the \<^verbatim>\<open>sendEvent\<close> of
  that round; \<open>pd\<close> is the pick for the deferred \<^verbatim>\<open>sendEvent\<close> at the exit. The case
  \<open>SelCloseCh\<close> can be taken only when \<^verbatim>\<open>closeCh\<close> is closed. When the list ends the
  loop is waiting in its \<^verbatim>\<open>select\<close>: the result is the state at that moment, with the
  event channel still open.
\<close>

datatype stt_select =
    SelCtxDone
  | SelCloseCh
  | SelError error
  | SelMessage frame

definition stt_loop_exit :: "bool \<Rightarrow> STT \<Rightarrow> STT" where
  "stt_loop_exit pd s = (sendEvent pd NewClosedEvent s)\<lparr>eventsCh_closed := True\<rparr>"

fun stt_messageLoop :: "bool \<Rightarrow> (stt_select \<times> bool) list \<Rightarrow> STT \<Rightarrow> STT" where
  "stt_messageLoop pd [] s = s"
| "stt_messageLoop pd ((SelCtxDone, pick) # rest) s = stt_loop_exit pd s"
| "stt_messageLoop pd ((SelCloseCh, pick) # rest) s =
     (if closeCh s then stt_loop_exit pd s else stt_messageLoop pd rest s)"
| "stt_messageLoop pd ((SelError err, pick) # rest) s =
     stt_loop_exit pd (sendEvent pick (NewErrorEvent err) s)"
| "stt_messageLoop pd ((SelMessage data, pick) # rest) s =
     stt_messageLoop pd rest (stt_handleMessage pick data s)"

section \<open>Package tts: the audio stream\<close>

type_synonym byte = "8 word"


record AudioChunk =
  Data :: "byte list"
  Sequence :: int
  IsDone :: bool
  Error :: "error option"

text \<open>
  The stream: the chunk channel (its buffer of capacity 100, oldest first), the read
  buffer, and the flags. The flag \<^verbatim>\<open>chunkChClosed\<close> is set exactly where the chunk
  channel is closed, always in the same critical section, so it also stands for the
  channel's own closed state. \<open>stream_closeCh\<close> and \<open>stream_closeOnce\<close> are the
  stream's \<^verbatim>\<open>closeCh\<close> and \<^verbatim>\<open>closeOnce\<close>, \<open>stream_closed\<close> its \<^verbatim>\<open>closed\<close>, and
  \<open>stream_err\<close> its \<^verbatim>\<open>err\<close>.
\<close>

record AudioStream =
  chunksCh :: "AudioChunk list"
  chunkChClosed :: bool
  buffer :: "byte list"
  stream_closed :: bool
  stream_closeCh :: bool
  stream_closeOnce :: bool
  totalSize :: int
  stream_err :: "error option"

definition newAudioStream :: AudioStream where
  "newAudioStream =
     \<lparr>chunksCh = [], chunkChClosed = False, buffer = [], stream_closed = False,
      stream_closeCh = False, stream_closeOnce = False, totalSize = 0, stream_err = None\<rparr>"



text \<open>
  \<open>pushChunk\<close>: the result is \<open>None\<close> when the \<^verbatim>\<open>select\<close> waits (the channel is full
  and the stream is not closed). \<open>pick\<close> decides as in \<open>sendEvent\<close> when both cases are
  ready.
\<close>

definition pushChunk :: "bool \<Rightarrow> AudioChunk \<Rightarrow> AudioStream \<Rightarrow> (bool \<times> AudioStream) option" where
  "pushChunk pick chunk s =
     (if chunkChClosed s then Some (False, s)
      else if length (chunksCh s) < 100
        then (if stream_closeCh s
                then (if pick then Some (True, s\<lparr>chunksCh := chunksCh s @ [chunk]\<rparr>)
                      else Some (False, s))
              else Some (True, s\<lparr>chunksCh := chunksCh s @ [chunk]\<rparr>))
      else if stream_closeCh s then Some (False, s)
      else None)"

definition pushData :: "bool \<Rightarrow> byte list \<Rightarrow> int \<Rightarrow> AudioStream \<Rightarrow> AudioStream option" where
  "pushData pick data seq s =
     map_option snd
       (pushChunk pick \<lparr>Data = data, Sequence = seq, IsDone = False, Error = None\<rparr> s)"

definition close_chunks :: "AudioChunk \<Rightarrow> AudioStream \<Rightarrow> AudioStream" where
  "close_chunks sentinel s =
     (let s1 = (if chunkChClosed s then s
                else (if length (chunksCh s) < 100 then s\<lparr>chunksCh := chunksCh s @ [sentinel]\<rparr>
                      else s)\<lparr>chunkChClosed := True\<rparr>)
      in s1\<lparr>stream_closeCh := True\<rparr>)"

definition pushDone :: "AudioStream \<Rightarrow> AudioStream" where
  "pushDone s =
     (if stream_closeOnce s then s
      else (close_chunks \<lparr>Data = [], Sequence = 0, IsDone = True, Error = None\<rparr> s)
             \<lparr>stream_closeOnce := True\<rparr>)"

definition pushError :: "error \<Rightarrow> AudioStream \<Rightarrow> AudioStream" where
  "pushError err s =
     (let s0 = s\<lparr>stream_err := Some err\<rparr>
      in if stream_closeOnce s0 then s0
         else (close_chunks \<lparr>Data = [], Sequence = 0, IsDone = False, Error = Some err\<rparr> s0)
                \<lparr>stream_closeOnce := True\<rparr>)"


subsection \<open>The base64 library\<close>

text \<open>
  \<^verbatim>\<open>base64.StdEncoding.DecodeString\<close>: the standard alphabet with padding; carriage
  returns and line feeds are skipped; anything else outside the alphabet, a length
  that is no multiple of four, and padding anywhere but at the very end are corrupt
  input.
\<close>

definition b64_alphabet :: string where
  "b64_alphabet = ''ABCDEFGHIJKLMNOPQRSTUVWXYZabcdefghijklmnopqrstuvwxyz0123456789+/''"

fun position :: "char \<Rightarrow> string \<Rightarrow> nat option" where
  "position c [] = None"
| "position c (x # xs) =
     (if c = x then Some 0 else map_option Suc (position c xs))"

definition b64_value :: "char \<Rightarrow> nat option" where
  "b64_value c = position c b64_alphabet"

fun decode_quanta :: "string \<Rightarrow> error + byte list" where
  "decode_quanta [] = Inr []"
| "decode_quanta (a # b # c # d # rest) =
     (case (b64_value a, b64_value b) of
        (Some x, Some y) \<Rightarrow>
          (if c = CHR ''='' then
             (if d = CHR ''='' \<and> rest = [] then Inr [of_nat (x * 4 + y div 16)]
              else Inl CorruptInputError)
           else (case b64_value c of
                   None \<Rightarrow> Inl CorruptInputError
                 | Some z \<Rightarrow>
                    (if d = CHR ''='' then
                       (if rest = []
                          then Inr [of_nat (x * 4 + y div 16), of_nat (y * 16 + z div 4)]
                        else Inl CorruptInputError)
                     else (case b64_value d of
                             None \<Rightarrow> Inl CorruptInputError
                           | Some w \<Rightarrow>
                              (case decode_quanta rest of
                                 Inl err \<Rightarrow> Inl err
                               | Inr bs \<Rightarrow>
                                  Inr (of_nat (x * 4 + y div 16) # of_nat (y * 16 + z div 4) #
                                       of_nat (z * 64 + w) # bs))))))
      | _ \<Rightarrow> Inl CorruptInputError)"
| "decode_quanta _ = Inl CorruptInputError"

definition DecodeString :: "string \<Rightarrow> error + byte list" where
  "DecodeString s = decode_quanta (filter (\<lambda>c. c \<noteq> CHR 0x0D \<and> c \<noteq> CHR 0x0A) s)"

section \<open>Package tts: the synthesis session\<close>

text \<open>
  The synthesis session adds the round state and the two time stamps (a
  \<^verbatim>\<open>time.Time\<close> is \<open>None\<close> when zero, else the instant in nanoseconds).
  \<open>ctx_cancelled\<close> says whether the session's own context has been cancelled. An
  audio stream is an object shared by the session and by the caller that reads it, so
  the streams live in a store, \<open>streams\<close>, and a pointer to a stream is its index there;
  \<^verbatim>\<open>newAudioStream\<close> takes the next index.
\<close>

record TTS = Session +
  seqNum :: int
  ctx_cancelled :: bool
  currentStream :: "nat option"
  roundCount :: int
  synthesizing :: bool
  commitSentAt :: "int option"
  firstChunkReceivedAt :: "int option"
  streams :: "AudioStream list"

definition tts_newSession :: "Conn \<Rightarrow> SessionParams \<Rightarrow> TTS" where
  "tts_newSession c p =
     \<lparr>ID = [], params = p, conn = c, closeCh = False, closeOnce = False, ready = False,
      closed = False, panicked = False, seqNum = 0, ctx_cancelled = False,
      currentStream = None, roundCount = 0, synthesizing = False, commitSentAt = None,
      firstChunkReceivedAt = None, streams = []\<rparr>"

definition tts_waitReady :: "received \<Rightarrow> TTS \<Rightarrow> error option \<times> TTS" where
  "tts_waitReady sel s =
     (case Receive sel of
        Inl err \<Rightarrow> (Some (Wrapf ''wait session.ready'' err), s)
      | Inr data \<Rightarrow>
         (case ParseMessageType data of
            Inl err \<Rightarrow> (Some (Wrapf ''parse session.ready'' err), s)
          | Inr msgType \<Rightarrow>
             if msgType \<noteq> MessageTypeSessionReady
               then (Some (Errorf (''expected session.ready, got '' @ msgType)), s)
             else (case ParseMessage data of
                     Inl err \<Rightarrow> (Some (Wrapf ''parse session.ready body'' err), s)
                   | Inr (SessionReady t sessionID) \<Rightarrow>
                       (None, s\<lparr>ID := sessionID, ready := True\<rparr>)
                   | Inr _ \<Rightarrow> (None, s\<lparr>panicked := True\<rparr>))))"

definition tts_sendConfig :: "TTS \<Rightarrow> error option \<times> TTS" where
  "tts_sendConfig s =
     (let (err, c) = SendJSON (NewSessionConfig (params s)) (conn s)
      in (err, s\<lparr>conn := c\<rparr>))"

definition tts_start :: "received \<Rightarrow> TTS \<Rightarrow> error option \<times> TTS" where
  "tts_start sel s =
     (case tts_waitReady sel s of
        (Some err, s1) \<Rightarrow> (Some err, s1)
      | (None, s1) \<Rightarrow>
         (case tts_sendConfig s1 of
            (Some err, s2) \<Rightarrow> (Some err, s2)
          | (None, s2) \<Rightarrow> (None, s2)))"

text \<open>
  The handlers of the message loop. \<open>now\<close> is what \<^verbatim>\<open>time.Now()\<close> returns. A handler
  that pushes data gives \<open>None\<close> when \<open>pushChunk\<close> waits.
\<close>

definition handleAudioDelta :: "int \<Rightarrow> bool \<Rightarrow> frame \<Rightarrow> TTS \<Rightarrow> TTS option" where
  "handleAudioDelta now pick data s =
     (let s1 = (if firstChunkReceivedAt s = None then s\<lparr>firstChunkReceivedAt := Some now\<rparr>
                else s)
      in case ParseMessage data of
           Inl err \<Rightarrow> Some s1
         | Inr (AudioDelta t audio) \<Rightarrow>
            (case DecodeString audio of
               Inl err \<Rightarrow> Some s1
             | Inr audioData \<Rightarrow>
                (let s2 = s1\<lparr>seqNum := seqNum s1 + 1\<rparr>
                 in case currentStream s2 of
                      None \<Rightarrow> Some s2
                    | Some a \<Rightarrow>
                       (case pushData pick audioData (seqNum s2) (streams s2 ! a) of
                          None \<Rightarrow> None
                        | Some st \<Rightarrow> Some (s2\<lparr>streams := (streams s2)[a := st]\<rparr>))))
         | Inr _ \<Rightarrow> Some (s1\<lparr>panicked := True\<rparr>))"

definition detach :: "TTS \<Rightarrow> TTS" where
  "detach s = s\<lparr>currentStream := None, synthesizing := False\<rparr>"

definition on_stream :: "nat option \<Rightarrow> (AudioStream \<Rightarrow> AudioStream) \<Rightarrow> TTS \<Rightarrow> TTS" where
  "on_stream stream f s =
     (case stream of None \<Rightarrow> s | Some a \<Rightarrow> s\<lparr>streams := (streams s)[a := f (streams s ! a)]\<rparr>)"

definition tts_handleError :: "frame \<Rightarrow> TTS \<Rightarrow> TTS" where
  "tts_handleError data s =
     (case ParseMessage data of
        Inl err \<Rightarrow> s
      | Inr (ErrorMessage t code msg) \<Rightarrow>
          on_stream (currentStream s) (pushError (Errorf (''['' @ code @ ''] '' @ msg))) (detach s)
      | Inr _ \<Rightarrow> s\<lparr>panicked := True\<rparr>)"

definition handleAudioDone :: "TTS \<Rightarrow> TTS" where
  "handleAudioDone s = on_stream (currentStream s) pushDone (detach s)"

definition handleStreamError :: "error \<Rightarrow> TTS \<Rightarrow> TTS" where
  "handleStreamError err s = on_stream (currentStream s) (pushError err) (detach s)"

definition tts_handleMessage :: "int \<Rightarrow> bool \<Rightarrow> frame \<Rightarrow> TTS \<Rightarrow> TTS option" where
  "tts_handleMessage now pick data s =
     (case ParseMessageType data of
        Inl err \<Rightarrow> Some s
      | Inr msgType \<Rightarrow>
          if msgType = MessageTypeAudioDelta then handleAudioDelta now pick data s
          else if msgType = MessageTypeAudioDone then Some (handleAudioDone s)
          else if msgType = MessageTypeError then Some (tts_handleError data s)
          else Some s)"

text \<open>
  The message loop, over the cases its \<^verbatim>\<open>select\<close> takes, each with the clock and the
  pick of that round. The result is \<open>None\<close> when a push waits; otherwise the state and
  whether the loop has returned (\<open>False\<close>: it waits in its \<^verbatim>\<open>select\<close>). The cases
  \<open>TSelSessionDone\<close> and \<open>TSelCloseCh\<close> can be taken only when the session's context is
  cancelled and when \<^verbatim>\<open>closeCh\<close> is closed.
\<close>

datatype tts_select =
    TSelCtxDone
  | TSelSessionDone
  | TSelCloseCh
  | TSelError error
  | TSelMessage frame

fun tts_messageLoop :: "(tts_select \<times> int \<times> bool) list \<Rightarrow> TTS \<Rightarrow> (bool \<times> TTS) option" where
  "tts_messageLoop [] s = Some (False, s)"
| "tts_messageLoop ((TSelCtxDone, now, pick) # rest) s = Some (True, s)"
| "tts_messageLoop ((TSelSessionDone, now, pick) # rest) s =
     (if ctx_cancelled s then Some (True, s) else tts_messageLoop rest s)"
| "tts_messageLoop ((TSelCloseCh, now, pick) # rest) s =
     (if closeCh s then Some (True, s) else tts_messageLoop rest s)"
| "tts_messageLoop ((TSelError err, now, pick) # rest) s = Some (True, handleStreamError err s)"
| "tts_messageLoop ((TSelMessage data, now, pick) # rest) s =
     (case tts_handleMessage now pick data s of
        None \<Rightarrow> None
      | Some s1 \<Rightarrow> tts_messageLoop rest s1)"

text \<open>
  \<open>SynthesizeStream\<close>; \<open>now\<close> is the clock when the commit time is taken. It returns
  the pointer to the new stream.
\<close>

definition SynthesizeStream :: "int \<Rightarrow> string \<Rightarrow> TTS \<Rightarrow> (error + nat) \<times> TTS" where
  "SynthesizeStream now text s =
     (if closed s then (Inl (Errorf ''session closed''), s)
      else if \<not> ready s then (Inl (Errorf ''session not ready''), s)
      else if synthesizing s
        then (Inl (Errorf ''synthesis in progress, wait for current round to complete''), s)
      else
        (let stream = length (streams s);
             s1 = s\<lparr>firstChunkReceivedAt := None, streams := streams s @ [newAudioStream],
                    currentStream := Some stream, synthesizing := True,
                    roundCount := roundCount s + 1\<rparr>;
             (err1, c1) = SendJSON (NewTextAppend text) (conn s1)
         in case err1 of
              Some err \<Rightarrow> (Inl (Wrapf ''send text'' err), detach (s1\<lparr>conn := c1\<rparr>))
            | None \<Rightarrow>
               (let s2 = s1\<lparr>conn := c1, commitSentAt := Some now\<rparr>;
                    (err2, c2) = SendJSON NewInputCommit (conn s2)
                in case err2 of
                     Some err \<Rightarrow> (Inl (Wrapf ''commit'' err), detach (s2\<lparr>conn := c2\<rparr>))
                   | None \<Rightarrow> (Inr stream, s2\<lparr>conn := c2\<rparr>))))"

definition RoundCount :: "TTS \<Rightarrow> int" where
  "RoundCount s = roundCount s"

definition IsSynthesizing :: "TTS \<Rightarrow> bool" where
  "IsSynthesizing s = synthesizing s"



section \<open>Close\<close>










text \<open>
  One caller, from call to return: \<^verbatim>\<open>closeOnce.Do\<close> runs the function when it has not
  run before.
\<close>

definition Once_Do :: "('a Session_scheme \<Rightarrow> 'a Session_scheme) list \<Rightarrow> 'a Session_scheme \<Rightarrow> 'a Session_scheme" where
  "Once_Do body s = (if closeOnce s then s else (fold (\<lambda>f. f) body s)\<lparr>closeOnce := True\<rparr>)"



text \<open>
  Several callers at once. \<^verbatim>\<open>sync.Once.Do\<close> reads the done flag; when it is unset the
  caller takes the mutex of the \<^verbatim>\<open>Once\<close>, reads the flag again, runs the function,
  sets the flag and releases the mutex. Each of these is one step of a caller, and so
  is each statement of the function. A schedule is the list of the callers in the
  order in which they take their steps; a caller that waits for the mutex, or has
  returned, does nothing in its step.
\<close>

datatype pc = Called | Locking | Locked | Running nat | Unlocking | Returned

record 's callers =
  sess :: 's
  mutex :: "nat option"
  pcs :: "pc list"





section \<open>Example values\<close>

text \<open>A connected socket and two frames, for the concrete instances of the theorems.\<close>

definition live_conn :: Conn where
  "live_conn = NewConn\<lparr>connected := True, ws := True\<rparr>"

definition ready_frame :: frame where
  "ready_frame =
     Doc (JObject [(''type'', JString ''session.ready''), (''session_id'', JString ''sess-42'')])"

definition partial_frame :: frame where
  "partial_frame =
     Doc (JObject [(''type'', JString ''transcript.partial''), (''text'', JString ''hel'')])"


definition bad_delta_frame :: frame where
  "bad_delta_frame =
     Doc (JObject [(''type'', JString ''audio.delta''), (''audio'', JString ''%%%%'')])"

definition stt_active :: STT where
  "stt_active =
     snd (stt_start (MessageReceived ready_frame) True (stt_newSession live_conn zero_SessionParams))"

definition tts_idle :: TTS where
  "tts_idle = snd (tts_start (MessageReceived ready_frame) (tts_newSession live_conn zero_SessionParams))"

definition tts_in_round :: TTS where
  "tts_in_round = snd (SynthesizeStream 5 ''hello'' tts_idle)"


section \<open>The life of a synthesis session\<close>






section \<open>Reading a stream to its end\<close>








section \<open>The phases of concurrent callers\<close>

text \<open>
  \<open>apply_steps body k s\<close> is the session after the first \<open>k\<close> statements of the closing
  function. A caller is \<open>waiting\<close> before it holds the mutex and \<open>outside\<close> when it
  does not hold it.
\<close>

definition apply_steps :: "('s \<Rightarrow> 's) list \<Rightarrow> nat \<Rightarrow> 's \<Rightarrow> 's" where
  "apply_steps body k s = fold (\<lambda>f. f) (take k body) s"











section \<open>Package transport: connecting with retries\<close>

text \<open>
  The two fields of the configuration that \<open>ConnectWithRetry\<close> reads:
  \<^verbatim>\<open>ReconnectBackoff\<close>, a \<^verbatim>\<open>time.Duration\<close>, and \<^verbatim>\<open>MaxReconnects\<close>, an \<^verbatim>\<open>int\<close>.
\<close>

record Config =
  ReconnectBackoff :: "64 word"
  MaxReconnects :: int

text \<open>
  What the dialer returns is decided by the network: \<open>Dialled\<close>, or an error, with the
  status code of the response when there is one. \<open>Connect\<close> takes that outcome and the
  clock before and after the dial. The reader and heartbeat goroutines that a
  successful \<open>Connect\<close> starts are not part of this model.
\<close>

datatype dial = Dialled | DialFailed error "int option"

definition Connect :: "dial \<Rightarrow> int \<Rightarrow> int \<Rightarrow> Conn \<Rightarrow> error option \<times> Conn" where
  "Connect d t0 t1 c =
     (if connected c then (None, c)
      else (let c1 = c\<lparr>connectStartAt := Some t0\<rparr>
            in case d of
                 DialFailed err (Some status) \<Rightarrow> (Some (ConnectFailedStatus err status), c1)
               | DialFailed err None \<Rightarrow> (Some (Wrapf ''websocket connect failed'' err), c1)
               | Dialled \<Rightarrow> (None, c1\<lparr>ws := True, connected := True, connectedAt := Some t1\<rparr>)))"

text \<open>
  What surrounds the attempt with index \<open>i\<close>: whether the caller's context ends
  during the wait before it (then with which error), the outcome of its dial, and the
  clock.
\<close>

record attempt =
  cancelled :: "error option"
  dialled :: dial
  dial_started :: int
  dial_finished :: int

text \<open>
  The loop of \<open>ConnectWithRetry\<close>, with \<open>r\<close> rounds to go, at index \<open>i\<close>. The list
  \<open>waits\<close> collects the durations of the waits that ran to their end, in order: the
  time spent is at least their sum. The loop counter is a natural number; the Go
  counter would wrap only after \<open>2 ^ 63\<close> attempts.
\<close>

fun retry_loop ::
  "int \<Rightarrow> nat \<Rightarrow> nat \<Rightarrow> 64 word \<Rightarrow> error option \<Rightarrow> (nat \<Rightarrow> attempt) \<Rightarrow> Conn \<Rightarrow> 64 word list \<Rightarrow>
   error option \<times> Conn \<times> 64 word list" where
  "retry_loop maxR 0 i backoff lastErr env c waits =
     (Some (ConnectFailedAfter maxR lastErr), c, waits)"
| "retry_loop maxR (Suc r) i backoff lastErr env c waits =
     (if 0 < i \<and> cancelled (env i) \<noteq> None then (cancelled (env i), c, waits)
      else
        (let waits1 = (if 0 < i then waits @ [backoff] else waits);
             backoff1 = (if 0 < i then backoff * 2 else backoff)
         in case Connect (dialled (env i)) (dial_started (env i)) (dial_finished (env i)) c of
              (None, c1) \<Rightarrow> (None, c1, waits1)
            | (Some err, c1) \<Rightarrow> retry_loop maxR r (Suc i) backoff1 (Some err) env c1 waits1))"

definition ConnectWithRetry ::
  "Config \<Rightarrow> (nat \<Rightarrow> attempt) \<Rightarrow> Conn \<Rightarrow> error option \<times> Conn \<times> 64 word list" where
  "ConnectWithRetry cfg env c =
     retry_loop (MaxReconnects cfg) (nat (MaxReconnects cfg + 1)) 0 (ReconnectBackoff cfg) None
       env c []"

text \<open>Attempts that fail without a status code and without cancellation, from \<open>i\<close> up to \<open>k\<close>.\<close>

definition fails_between :: "(nat \<Rightarrow> attempt) \<Rightarrow> (nat \<Rightarrow> error) \<Rightarrow> nat \<Rightarrow> nat \<Rightarrow> bool" where
  "fails_between env errs i k =
     (\<forall>j. i \<le> j \<and> j < k \<longrightarrow> cancelled (env j) = None \<and> dialled (env j) = DialFailed (errs j) None)"

definition backoffs :: "64 word \<Rightarrow> nat \<Rightarrow> 64 word list" where
  "backoffs base m = map (\<lambda>j. base * 2 ^ j) [0..<m]"

text \<open>The scenario of the specification: two refused dials, then an accepted one.\<close>

definition fail_fail_ok :: "nat \<Rightarrow> attempt" where
  "fail_fail_ok i =
     \<lparr>cancelled = None,
      dialled = (if i < 2 then DialFailed (SocketError ''connection refused'') None else Dialled),
      dial_started = 0, dial_finished = 0\<rparr>"

definition always_refused :: "nat \<Rightarrow> attempt" where
  "always_refused i =
     \<lparr>cancelled = None, dialled = DialFailed (SocketError ''connection refused'') None,
      dial_started = 0, dial_finished = 0\<rparr>"

definition cancelled_in_second_wait :: "nat \<Rightarrow> attempt" where
  "cancelled_in_second_wait i =
     \<lparr>cancelled = (if i = 2 then Some ContextCanceled else None),
      dialled = DialFailed (SocketError ''connection refused'') None, dial_started = 0, dial_finished = 0\<rparr>"

definition default_retry :: Config where
  "default_retry = \<lparr>ReconnectBackoff = 1 * Second, MaxReconnects = 3\<rparr>"

section \<open>Package stt: recognising a whole file or a whole slice of bytes\<close>

text \<open>
  \<^verbatim>\<open>RecognizeFile\<close> and \<^verbatim>\<open>RecognizeBytes\<close> open a session, start a goroutine that sends
  the audio and then the commit, and run the same event loop; they differ in where
  the audio comes from. The model is that loop, from the moment the session is up.
  The fields of \<^verbatim>\<open>Segment\<close> have the prefix \<open>seg_\<close>, those of \<^verbatim>\<open>RecognitionResult\<close>
  the prefix \<open>res_\<close>.
\<close>

definition recognizeIdleTimeout :: "64 word" where
  "recognizeIdleTimeout = 10 * Second"

record Segment =
  seg_Text :: string
  seg_IsFinal :: bool
  seg_StartTime :: "64 word"
  seg_EndTime :: "64 word"

record RecognitionResult =
  res_Text :: string
  res_Segments :: "Segment list"
  res_Duration :: "64 word"
  res_Error :: "error option"

text \<open>
  The variables of the loop. \<open>sendDoneCh\<close> is false once the code has set the channel
  to \<^verbatim>\<open>nil\<close>. \<open>idleTimer\<close> is \<open>None\<close> while the timer is stopped and \<open>Some d\<close> while it
  is set to fire at the instant \<open>d\<close>. Instants are nanoseconds on the clock, as
  integers.
\<close>

record recognizing =
  committed :: bool
  sendDoneCh :: bool
  idleTimer :: "int option"
  texts :: "string list"
  result :: RecognitionResult

definition recognize_init :: recognizing where
  "recognize_init =
     \<lparr>committed = False, sendDoneCh = True, idleTimer = None, texts = [],
      result = \<lparr>res_Text = [], res_Segments = [], res_Duration = 0, res_Error = None\<rparr>\<rparr>"

text \<open>
  What can make a branch of the \<^verbatim>\<open>select\<close> other than the timer's ready: the caller's
  context ends, the sending goroutine reports (\<^verbatim>\<open>nil\<close> after a commit that was sent),
  an event arrives, or the event channel is closed.
\<close>

datatype arrival =
    ArrCtxDone
  | ArrSendDone "error option"
  | ArrEvent RecognitionEvent
  | ArrEventsClosed

text \<open>
  \<^verbatim>\<open>time.Since\<close>: the difference of two instants as a \<^verbatim>\<open>Duration\<close>, which the library
  saturates at the ends of the 64-bit range.
\<close>

definition Since :: "int \<Rightarrow> int \<Rightarrow> 64 word" where
  "Since start now =
     (let d = now - start
      in if 2 ^ 63 \<le> d then word_of_int (2 ^ 63 - 1)
         else if d < - (2 ^ 63) then word_of_int (- (2 ^ 63))
         else word_of_int d)"

text \<open>
  The event branch at the instant \<open>now\<close>. The first component says whether the branch
  leaves the loop.
\<close>

definition on_event :: "int \<Rightarrow> RecognitionEvent \<Rightarrow> recognizing \<Rightarrow> bool \<times> recognizing" where
  "on_event now event st =
     (let st1 = (if committed st
                 then st\<lparr>idleTimer := Some (now + sint recognizeIdleTimeout)\<rparr> else st)
      in case ev_Type event of
           EventFinal \<Rightarrow>
             (False,
              st1\<lparr>texts := texts st1 @ [ev_Text event],
                  result := (result st1)
                    \<lparr>res_Segments := res_Segments (result st1) @
                       [\<lparr>seg_Text = ev_Text event, seg_IsFinal = True,
                         seg_StartTime = ev_StartTime event,
                         seg_EndTime = ev_EndTime event\<rparr>]\<rparr>\<rparr>)
         | EventError \<Rightarrow> (False, st1\<lparr>result := (result st1)\<lparr>res_Error := ev_Error event\<rparr>\<rparr>)
         | EventInputDone \<Rightarrow> (True, st1)
         | EventClosed \<Rightarrow> (True, st1)
         | _ \<Rightarrow> (False, st1))"

text \<open>
  The statements after the loop, reached at the instant \<open>now\<close>: the texts are joined
  with the empty separator, and the call returns the result with its \<^verbatim>\<open>Error\<close> field
  as error.
\<close>

definition finish :: "int \<Rightarrow> int \<Rightarrow> recognizing \<Rightarrow> RecognitionResult option \<times> error option" where
  "finish start now st =
     (let r = (result st)\<lparr>res_Text := concat (texts st), res_Duration := Since start now\<rparr>
      in (Some r, res_Error r))"

text \<open>
  One round of the \<^verbatim>\<open>select\<close> for an arrival at the instant \<open>now\<close>: \<open>Inl\<close> is what the
  call returns, \<open>Inr\<close> the variables for the next round. A report on \<^verbatim>\<open>sendDoneCh\<close>
  is not received once the channel is \<^verbatim>\<open>nil\<close>.
\<close>

definition recognize_select ::
  "int \<Rightarrow> int \<Rightarrow> arrival \<Rightarrow> recognizing \<Rightarrow>
   (RecognitionResult option \<times> error option) + recognizing" where
  "recognize_select start now a st =
     (case a of
        ArrCtxDone \<Rightarrow> Inl (finish start now st)
      | ArrSendDone err \<Rightarrow>
          (if \<not> sendDoneCh st then Inr st
           else case err of
                  Some e \<Rightarrow> Inl (None, Some (Wrapf ''send audio'' e))
                | None \<Rightarrow>
                    Inr (st\<lparr>committed := True, sendDoneCh := False,
                            idleTimer := Some (now + sint recognizeIdleTimeout)\<rparr>))
      | ArrEventsClosed \<Rightarrow> Inl (finish start now st)
      | ArrEvent event \<Rightarrow>
          (case on_event now event st of
             (True, st1) \<Rightarrow> Inl (finish start now st1)
           | (False, st1) \<Rightarrow> Inr st1))"

text \<open>
  The loop over the arrivals in the order of their instants. The timer's branch is
  taken when the timer is set and its instant comes before the next arrival, or when
  nothing arrives any more; an arrival at the very instant of the timer is taken first.
  With the timer stopped and nothing arriving the \<^verbatim>\<open>select\<close> waits for ever: the
  result is \<open>None\<close>.
\<close>

fun recognize_loop ::
  "int \<Rightarrow> (int \<times> arrival) list \<Rightarrow> recognizing \<Rightarrow>
   (RecognitionResult option \<times> error option) option" where
  "recognize_loop start [] st =
     (case idleTimer st of
        None \<Rightarrow> None
      | Some d \<Rightarrow> Some (finish start d st))"
| "recognize_loop start ((now, a) # later) st =
     (case (case idleTimer st of
              None \<Rightarrow> None
            | Some d \<Rightarrow> if d < now then Some d else None) of
        Some d \<Rightarrow> Some (finish start d st)
      | None \<Rightarrow>
          (case recognize_select start now a st of
             Inl r \<Rightarrow> Some r
           | Inr st1 \<Rightarrow> recognize_loop start later st1))"

definition RecognizeFile ::
  "int \<Rightarrow> (int \<times> arrival) list \<Rightarrow> (RecognitionResult option \<times> error option) option" where
  "RecognizeFile start arrivals = recognize_loop start arrivals recognize_init"

definition RecognizeBytes ::
  "int \<Rightarrow> (int \<times> arrival) list \<Rightarrow> (RecognitionResult option \<times> error option) option" where
  "RecognizeBytes start arrivals = recognize_loop start arrivals recognize_init"

text \<open>
  What a list of events amounts to: the segments of its final events, their texts, and
  the error of its last error event.
\<close>

definition is_final :: "RecognitionEvent \<Rightarrow> bool" where
  "is_final event = (ev_Type event = EventFinal)"

definition segment_of :: "RecognitionEvent \<Rightarrow> Segment" where
  "segment_of event =
     \<lparr>seg_Text = ev_Text event, seg_IsFinal = True, seg_StartTime = ev_StartTime event,
      seg_EndTime = ev_EndTime event\<rparr>"

definition segments_of :: "RecognitionEvent list \<Rightarrow> Segment list" where
  "segments_of events = map segment_of (filter is_final events)"

definition text_of :: "RecognitionEvent list \<Rightarrow> string" where
  "text_of events = concat (map ev_Text (filter is_final events))"

fun error_of :: "RecognitionEvent list \<Rightarrow> error option \<Rightarrow> error option" where
  "error_of [] e = e"
| "error_of (event # events) e =
     error_of events (if ev_Type event = EventError then ev_Error event else e)"

text \<open>Events that do not end the loop by themselves.\<close>

definition goes_on :: "RecognitionEvent \<Rightarrow> bool" where
  "goes_on event = (ev_Type event \<noteq> EventInputDone \<and> ev_Type event \<noteq> EventClosed)"

text \<open>
  Instants each of which is at most the idle timeout after the one before, the first
  at most the idle timeout after \<open>t\<close>; and the instant at which the timer set by the
  last of them fires.
\<close>

fun in_time :: "int \<Rightarrow> int list \<Rightarrow> bool" where
  "in_time t [] = True"
| "in_time t (u # us) = (u \<le> t + sint recognizeIdleTimeout \<and> in_time u us)"

fun expiry :: "int \<Rightarrow> int list \<Rightarrow> int" where
  "expiry t [] = t + sint recognizeIdleTimeout"
| "expiry t (u # us) = expiry u us"

definition arrive :: "(int \<times> RecognitionEvent) list \<Rightarrow> (int \<times> arrival) list" where
  "arrive events = map (\<lambda>(t, event). (t, ArrEvent event)) events"

text \<open>
  The variables \<open>st1\<close> hold what the events add to the texts, the segments and the
  error of \<open>st\<close>.
\<close>

definition collected :: "RecognitionEvent list \<Rightarrow> recognizing \<Rightarrow> recognizing \<Rightarrow> bool" where
  "collected events st st1 =
     (texts st1 = texts st @ map ev_Text (filter is_final events) \<and>
      res_Segments (result st1) = res_Segments (result st) @ segments_of events \<and>
      res_Error (result st1) = error_of events (res_Error (result st)))"

text \<open>Two final events and an error event of the gateway.\<close>

definition hello_final :: RecognitionEvent where
  "hello_final = NewFinalEvent ''hello'' 0 (500 * Millisecond)"

definition world_final :: RecognitionEvent where
  "world_final = NewFinalEvent '' world'' (500 * Millisecond) Second"

definition server_error :: RecognitionEvent where
  "server_error = NewErrorEvent (Errorf ''[PROVIDER_ERROR] upstream failed'')"

section \<open>Properties of the codec\<close>

lemmas MessageType_defs =
  MessageTypeSessionConfig_def MessageTypeAudioAppend_def MessageTypeTextAppend_def
  MessageTypeInputCommit_def MessageTypeSessionEnd_def MessageTypeSessionReady_def
  MessageTypeSessionConfigDone_def MessageTypeTranscriptPartial_def
  MessageTypeTranscriptFinal_def MessageTypeAudioDelta_def MessageTypeAudioDone_def
  MessageTypeInputDone_def MessageTypeProcessing_def MessageTypeError_def

lemmas fold_simps = names_def upper_char_def upper_table_def

lemmas codec_defs =
  ParseMessage_def ParseMessageType_def Unmarshal_def decode_struct_def set_string_def on_ok_def

subsection \<open>ParseMessageType\<close>

lemma decode_members_append:
  "decode_members f (xs @ ys) v =
     (case decode_members f xs v of Inl e \<Rightarrow> Inl e | Inr v' \<Rightarrow> decode_members f ys v')"
  by (induction xs arbitrary: v) (auto split: sum.splits)

lemma RawMessage_untagged:
  "\<forall>(k, v) \<in> set kvs. \<not> names k ''type'' \<Longrightarrow> decode_members RawMessage_field kvs t = Inr t"
  by (induction kvs arbitrary: t) auto

lemma RawMessage_filter:
  "decode_members RawMessage_field kvs t =
   decode_members RawMessage_field (filter (\<lambda>(k, v). names k ''type'') kvs) t"
  by (induction kvs arbitrary: t) (auto split: sum.splits)

lemma set_string_ok: "(\<exists>s. set_string f j old = Inr s) \<longleftrightarrow> string_or_null j"
  by (cases j) (auto simp: set_string_def string_or_null_def)

lemma RawMessage_fails:
  "(\<exists>e. decode_members RawMessage_field kvs t = Inl e) \<longleftrightarrow>
   (\<exists>(k, v) \<in> set kvs. names k ''type'' \<and> \<not> string_or_null v)"
proof (induction kvs arbitrary: t)
  case Nil
  then show ?case by simp
next
  case (Cons kv kvs)
  obtain k j where kv: "kv = (k, j)" by (cases kv)
  show ?case
  proof (cases "names k ''type''")
    case False
    with kv Cons show ?thesis by simp
  next
    case True
    show ?thesis
    proof (cases "string_or_null j")
      case False
      then have "\<exists>e. set_string ''type'' j t = Inl e"
        using set_string_ok[of "''type''" j t] by (cases "set_string ''type'' j t") auto
      with kv True False show ?thesis by auto
    next
      case sn: True
      then obtain s where "set_string ''type'' j t = Inr s"
        using set_string_ok by blast
      with kv True sn Cons[of s] show ?thesis by auto
    qed
  qed
qed

lemma ParseMessageType_fails:
  "(\<exists>e. ParseMessageType data = Inl e) \<longleftrightarrow>
     data = Garbage \<or> (\<exists>j. data = Doc j \<and> \<not> object_or_null j) \<or>
     (\<exists>kvs. data = Doc (JObject kvs) \<and>
        (\<exists>(k, v) \<in> set kvs. names k ''type'' \<and> \<not> string_or_null v))"
proof (cases data)
  case Garbage
  then show ?thesis by (simp add: ParseMessageType_def Unmarshal_def)
next
  case (Doc j)
  show ?thesis
  proof (cases j)
    case (JObject kvs)
    have "(\<exists>e. ParseMessageType data = Inl e) \<longleftrightarrow>
          (\<exists>e. decode_members RawMessage_field kvs [] = Inl e)"
      using Doc JObject
      by (auto simp: ParseMessageType_def Unmarshal_def decode_struct_def split: sum.splits)
    with Doc JObject show ?thesis
      by (simp add: RawMessage_fails object_or_null_def)
  qed (use Doc in \<open>simp_all add: ParseMessageType_def Unmarshal_def decode_struct_def
         object_or_null_def\<close>)
qed

lemma ParseMessageType_tagged:
  assumes "\<forall>(k, v) \<in> set pre. \<not> names k ''type''"
    and "\<forall>(k, v) \<in> set post. \<not> names k ''type''"
  shows "ParseMessageType (Doc (JObject (pre @ (''type'', JString t) # post))) = Inr t"
proof -
  have "decode_members RawMessage_field (pre @ (''type'', JString t) # post) [] = Inr t"
    using assms
    by (simp add: decode_members_append RawMessage_untagged set_string_def fold_simps)
  then show ?thesis
    by (simp add: ParseMessageType_def Unmarshal_def decode_struct_def)
qed

text \<open>
  C9 (as amended). \<open>ParseMessageType\<close> reads the discriminant alone: the members that
  do not name \<open>type\<close> have no influence on its result. It fails exactly when
  \<^verbatim>\<open>json.Unmarshal\<close> fails: the frame is not JSON, or its value is neither an object
  nor null, or a member naming \<open>type\<close> holds neither a string nor null. A frame that
  lacks the tag is no failure: the result is the empty tag. An object with one member
  \<open>type\<close> that holds a string yields that string.
\<close>

theorem ParseMessageType_amended:
  "((\<exists>e. ParseMessageType data = Inl e) \<longleftrightarrow>
       data = Garbage \<or> (\<exists>j. data = Doc j \<and> \<not> object_or_null j) \<or>
       (\<exists>ms. data = Doc (JObject ms) \<and>
          (\<exists>(k, v) \<in> set ms. names k ''type'' \<and> \<not> string_or_null v))) \<and>
   ((\<forall>(k, v) \<in> set kvs. \<not> names k ''type'') \<longrightarrow>
       ParseMessageType (Doc (JObject kvs)) = Inr []) \<and>
   ((\<forall>(k, v) \<in> set pre. \<not> names k ''type'') \<and> (\<forall>(k, v) \<in> set post. \<not> names k ''type'') \<longrightarrow>
       ParseMessageType (Doc (JObject (pre @ (''type'', JString t) # post))) = Inr t) \<and>
   ParseMessageType (Doc (JObject kvs)) =
     ParseMessageType (Doc (JObject (filter (\<lambda>(k, v). names k ''type'') kvs)))"
proof -
  have untagged: "(\<forall>(k, v) \<in> set kvs. \<not> names k ''type'') \<longrightarrow>
       ParseMessageType (Doc (JObject kvs)) = Inr []"
    by (simp add: ParseMessageType_def Unmarshal_def decode_struct_def RawMessage_untagged)
  have only: "ParseMessageType (Doc (JObject kvs)) =
     ParseMessageType (Doc (JObject (filter (\<lambda>(k, v). names k ''type'') kvs)))"
    using RawMessage_filter[of kvs "[]"]
    by (simp add: ParseMessageType_def Unmarshal_def decode_struct_def)
  show ?thesis
    using ParseMessageType_fails[of data] untagged only ParseMessageType_tagged[of pre post t]
    by blast
qed

theorem ParseMessageType_amended_witness:
  "\<not> names ''text'' ''type'' \<and> \<not> names ''seq'' ''type'' \<and> names ''Type'' ''type'' \<and>
   ParseMessageType (Doc (JObject [(''text'', JString ''hello'')])) = Inr [] \<and>
   ParseMessageType (Doc (JObject
     [(''seq'', JNumber (IntLit 7)), (''type'', JString ''audio.done''),
      (''text'', JString ''hello'')])) = Inr ''audio.done'' \<and>
   (\<exists>e. ParseMessageType (Doc (JObject [(''Type'', JNumber (IntLit 5))])) = Inl e)"
proof -
  have n: "\<not> names ''text'' ''type''" "\<not> names ''seq'' ''type''" "names ''Type'' ''type''"
    by (simp_all add: fold_simps)
  have a: "\<forall>(k, v) \<in> set [(''text'', JString ''hello'')]. \<not> names k ''type''"
    using n by simp
  have b: "\<forall>(k, v) \<in> set [(''seq'', JNumber (IntLit 7))]. \<not> names k ''type''"
    using n by simp
  have c: "\<exists>ms. Doc (JObject [(''Type'', JNumber (IntLit 5))]) = Doc (JObject ms) \<and>
          (\<exists>(k, v) \<in> set ms. names k ''type'' \<and> \<not> string_or_null v)"
    using n by (simp add: string_or_null_def)
  show ?thesis
    using n a b c
      ParseMessageType_amended[of "Doc (JObject [(''Type'', JNumber (IntLit 5))])"
        "[(''text'', JString ''hello'')]" "[(''seq'', JNumber (IntLit 7))]"
        "[(''text'', JString ''hello'')]" "''audio.done''"]
    by simp
qed

theorem ParseMessageType_untagged_counterexample:
  "ParseMessageType (Doc (JObject [(''session_id'', JString ''s-1'')])) = Inr []"
  by (simp add: ParseMessageType_def Unmarshal_def decode_struct_def fold_simps)

subsection \<open>Encoding, then decoding\<close>






text \<open>
  C8 (the code at the failing input). \<open>session.config_done\<close> is the fourteenth tag of
  package protocol, with its struct and its constructor, and \<open>EncodeMessage\<close> encodes
  it; the type switch of \<open>ParseMessage\<close> has no case for it, so decoding the encoded
  message ends in the default branch.
\<close>

theorem ParseMessage_SessionConfigDone:
  "EncodeMessage NewSessionConfigDone =
     Inr (Doc (JObject [(''type'', JString ''session.config_done'')])) \<and>
   ParseMessage (Doc (JObject [(''type'', JString ''session.config_done'')])) =
     Inl (Errorf ''unknown message type: session.config_done'')"
  by (simp add: EncodeMessage_def NewSessionConfigDone_def codec_defs fold_simps
      MessageType_defs)

section \<open>Properties of the handshake\<close>

lemma on_ok_Inr: "on_ok f r = Inr y \<Longrightarrow> \<exists>x. r = Inr x \<and> y = f x"
  by (cases r) (auto simp: on_ok_def)

lemma message_field_tag: "message_field k j m = Inr m' \<Longrightarrow> tag_of m' = tag_of m"
  by (cases m) (auto split: if_splits dest!: on_ok_Inr)

lemma decode_members_tag:
  "decode_members message_field kvs m = Inr m' \<Longrightarrow> tag_of m' = tag_of m"
proof (induction kvs arbitrary: m)
  case Nil then show ?case by simp
next
  case (Cons kv kvs)
  obtain k j where kv: "kv = (k, j)" by (cases kv)
  from Cons.prems kv obtain m1 where m1: "message_field k j m = Inr m1"
    and rest: "decode_members message_field kvs m1 = Inr m'"
    by (auto split: sum.splits)
  from Cons.IH[OF rest] message_field_tag[OF m1] show ?case by simp
qed

lemma Unmarshal_tag: "Unmarshal message_field data m = Inr m' \<Longrightarrow> tag_of m' = tag_of m"
  by (auto simp: Unmarshal_def decode_struct_def decode_members_tag split: frame.splits json.splits)

lemma ParseMessage_tag:
  "ParseMessage data = Inr m \<Longrightarrow> ParseMessageType data = Inr (tag_of m)"
  unfolding ParseMessage_def
  by (auto simp: Let_def split: sum.splits if_splits option.splits dest!: Unmarshal_tag)

lemma ParseMessage_ready:
  assumes "ParseMessageType data = Inr MessageTypeSessionReady" "ParseMessage data = Inr m"
  shows "\<exists>t sid. m = SessionReady t sid"
proof -
  from ParseMessage_tag[OF assms(2)] assms(1) have "tag_of m = MessageTypeSessionReady" by simp
  then show ?thesis by (cases m) (simp_all add: MessageType_defs)
qed


lemma stt_waitReady_cases:
  "(\<exists>err. stt_waitReady sel pick s = (Some err, s)) \<or>
   (\<exists>data t sid. sel = MessageReceived data \<and>
      ParseMessageType data = Inr MessageTypeSessionReady \<and>
      ParseMessage data = Inr (SessionReady t sid) \<and>
      stt_waitReady sel pick s =
        (None, sendEvent pick (NewReadyEvent sid) (s\<lparr>ID := sid, ready := True\<rparr>)))"
proof (cases "Receive sel")
  case (Inl e)
  then show ?thesis by (simp add: stt_waitReady_def)
next
  case (Inr data)
  then have sel: "sel = MessageReceived data"
    by (cases sel) (simp_all add: Receive_def)
  show ?thesis
  proof (cases "ParseMessageType data")
    case (Inl e)
    with Inr show ?thesis by (simp add: stt_waitReady_def)
  next
    case ty: (Inr msgType)
    show ?thesis
    proof (cases "msgType = MessageTypeSessionReady")
      case False
      with Inr ty show ?thesis by (simp add: stt_waitReady_def)
    next
      case True
      show ?thesis
      proof (cases "ParseMessage data")
        case (Inl e)
        with Inr ty True show ?thesis by (simp add: stt_waitReady_def)
      next
        case pm: (Inr m)
        from ParseMessage_ready[of data m] ty True pm obtain t sid where "m = SessionReady t sid"
          by auto
        with Inr ty True pm sel show ?thesis by (simp add: stt_waitReady_def)
      qed
    qed
  qed
qed

lemma sendEvent_base [simp]:
  "ID (sendEvent pick ev s) = ID s" "ready (sendEvent pick ev s) = ready s"
  "conn (sendEvent pick ev s) = conn s" "params (sendEvent pick ev s) = params s"
  "closeCh (sendEvent pick ev s) = closeCh s" "closed (sendEvent pick ev s) = closed s"
  "panicked (sendEvent pick ev s) = panicked s" "closeOnce (sendEvent pick ev s) = closeOnce s"
  "eventsCh_closed (sendEvent pick ev s) = eventsCh_closed s"
  by (simp_all add: sendEvent_def)

lemma stt_start_ok:
  assumes "fst (stt_start sel pick s) = None"
  shows "\<exists>data t sid. sel = MessageReceived data \<and>
      ParseMessageType data = Inr MessageTypeSessionReady \<and>
      ParseMessage data = Inr (SessionReady t sid) \<and>
      ID (snd (stt_start sel pick s)) = sid \<and> ready (snd (stt_start sel pick s))"
proof -
  from stt_waitReady_cases[of sel pick s] show ?thesis
  proof
    assume "\<exists>err. stt_waitReady sel pick s = (Some err, s)"
    with assms show ?thesis by (auto simp: stt_start_def)
  next
    assume "\<exists>data t sid. sel = MessageReceived data \<and>
      ParseMessageType data = Inr MessageTypeSessionReady \<and>
      ParseMessage data = Inr (SessionReady t sid) \<and>
      stt_waitReady sel pick s =
        (None, sendEvent pick (NewReadyEvent sid) (s\<lparr>ID := sid, ready := True\<rparr>))"
    then obtain data t sid where d: "sel = MessageReceived data"
      "ParseMessageType data = Inr MessageTypeSessionReady"
      "ParseMessage data = Inr (SessionReady t sid)"
      "stt_waitReady sel pick s =
        (None, sendEvent pick (NewReadyEvent sid) (s\<lparr>ID := sid, ready := True\<rparr>))"
      by blast
    have "ID (snd (stt_start sel pick s)) = sid \<and> ready (snd (stt_start sel pick s))"
      using d(4) by (simp add: stt_start_def stt_sendConfig_def split: prod.splits option.splits)
    with d show ?thesis by blast
  qed
qed

lemma stt_start_other:
  assumes "ParseMessageType data = Inr t" "t \<noteq> MessageTypeSessionReady"
  shows "stt_start (MessageReceived data) pick s =
           (Some (Errorf (''expected session.ready, got '' @ t)), s)"
  using assms by (simp add: stt_start_def stt_waitReady_def Receive_def)

lemma stt_waitReady_fail:
  "fst (stt_waitReady sel pick s) \<noteq> None \<Longrightarrow> snd (stt_waitReady sel pick s) = s"
  using stt_waitReady_cases[of sel pick s] by auto

lemma tts_waitReady_cases:
  "(\<exists>err. tts_waitReady sel s = (Some err, s)) \<or>
   (\<exists>data t sid. sel = MessageReceived data \<and>
      ParseMessageType data = Inr MessageTypeSessionReady \<and>
      ParseMessage data = Inr (SessionReady t sid) \<and>
      tts_waitReady sel s = (None, s\<lparr>ID := sid, ready := True\<rparr>))"
proof (cases "Receive sel")
  case (Inl e)
  then show ?thesis by (simp add: tts_waitReady_def)
next
  case (Inr data)
  then have sel: "sel = MessageReceived data"
    by (cases sel) (simp_all add: Receive_def)
  show ?thesis
  proof (cases "ParseMessageType data")
    case (Inl e)
    with Inr show ?thesis by (simp add: tts_waitReady_def)
  next
    case ty: (Inr msgType)
    show ?thesis
    proof (cases "msgType = MessageTypeSessionReady")
      case False
      with Inr ty show ?thesis by (simp add: tts_waitReady_def)
    next
      case True
      show ?thesis
      proof (cases "ParseMessage data")
        case (Inl e)
        with Inr ty True show ?thesis by (simp add: tts_waitReady_def)
      next
        case pm: (Inr m)
        from ParseMessage_ready[of data m] ty True pm obtain t sid where "m = SessionReady t sid"
          by auto
        with Inr ty True pm sel show ?thesis by (simp add: tts_waitReady_def)
      qed
    qed
  qed
qed

lemma tts_start_ok:
  assumes "fst (tts_start sel s) = None"
  shows "\<exists>data t sid. sel = MessageReceived data \<and>
      ParseMessageType data = Inr MessageTypeSessionReady \<and>
      ParseMessage data = Inr (SessionReady t sid) \<and>
      ID (snd (tts_start sel s)) = sid \<and> ready (snd (tts_start sel s))"
proof -
  from tts_waitReady_cases[of sel s] show ?thesis
  proof
    assume "\<exists>err. tts_waitReady sel s = (Some err, s)"
    with assms show ?thesis by (auto simp: tts_start_def)
  next
    assume "\<exists>data t sid. sel = MessageReceived data \<and>
      ParseMessageType data = Inr MessageTypeSessionReady \<and>
      ParseMessage data = Inr (SessionReady t sid) \<and>
      tts_waitReady sel s = (None, s\<lparr>ID := sid, ready := True\<rparr>)"
    then obtain data t sid where d: "sel = MessageReceived data"
      "ParseMessageType data = Inr MessageTypeSessionReady"
      "ParseMessage data = Inr (SessionReady t sid)"
      "tts_waitReady sel s = (None, s\<lparr>ID := sid, ready := True\<rparr>)"
      by blast
    have "ID (snd (tts_start sel s)) = sid \<and> ready (snd (tts_start sel s))"
      using d(4) by (simp add: tts_start_def tts_sendConfig_def split: prod.splits option.splits)
    with d show ?thesis by blast
  qed
qed

lemma tts_start_other:
  assumes "ParseMessageType data = Inr t" "t \<noteq> MessageTypeSessionReady"
  shows "tts_start (MessageReceived data) s =
           (Some (Errorf (''expected session.ready, got '' @ t)), s)"
  using assms by (simp add: tts_start_def tts_waitReady_def Receive_def)

lemma tts_waitReady_fail:
  "fst (tts_waitReady sel s) \<noteq> None \<Longrightarrow> snd (tts_waitReady sel s) = s"
  using tts_waitReady_cases[of sel s] by auto

text \<open>After the handshake no code of the recognition session writes the ID.\<close>

lemma stt_handleMessage_ID [simp]: "ID (stt_handleMessage pick data s) = ID s"
  by (simp add: stt_handleMessage_def handlePartial_def handleFinal_def stt_handleError_def
      split: sum.splits message.splits)

lemma stt_loop_exit_ID [simp]: "ID (stt_loop_exit pd s) = ID s"
  by (simp add: stt_loop_exit_def)

lemma stt_messageLoop_ID: "ID (stt_messageLoop pd ins s) = ID s"
  by (induction pd ins s rule: stt_messageLoop.induct) simp_all

text \<open>
  C1. \<open>start\<close> returns without error only when the case that \<open>Receive\<close> took is a
  frame, the frame's tag is \<open>session.ready\<close> and the frame decodes as the ready
  message; the session is then ready and its ID is the \<open>session_id\<close> of that frame. A
  first frame with any other tag makes \<open>start\<close> fail with the error "expected
  session.ready, got ..." and leaves the session as it was: not ready, the ID unset,
  no message loop. Whenever the wait for the ready frame fails the session is
  unchanged, and the message loop never writes the ID. This holds for the recognition
  session and for the synthesis session.
\<close>

theorem start_needs_session_ready:
  "(fst (stt_start sel pick s) = None \<longrightarrow>
      (\<exists>data t sid. sel = MessageReceived data \<and>
         ParseMessageType data = Inr MessageTypeSessionReady \<and>
         ParseMessage data = Inr (SessionReady t sid) \<and>
         ID (snd (stt_start sel pick s)) = sid \<and> ready (snd (stt_start sel pick s)))) \<and>
   (ParseMessageType data = Inr tag \<and> tag \<noteq> MessageTypeSessionReady \<longrightarrow>
      stt_start (MessageReceived data) pick s =
        (Some (Errorf (''expected session.ready, got '' @ tag)), s)) \<and>
   (fst (stt_waitReady sel pick s) \<noteq> None \<longrightarrow> snd (stt_waitReady sel pick s) = s) \<and>
   ID (stt_messageLoop pd ins s) = ID s \<and>
   (fst (tts_start sel u) = None \<longrightarrow>
      (\<exists>data t sid. sel = MessageReceived data \<and>
         ParseMessageType data = Inr MessageTypeSessionReady \<and>
         ParseMessage data = Inr (SessionReady t sid) \<and>
         ID (snd (tts_start sel u)) = sid \<and> ready (snd (tts_start sel u)))) \<and>
   (ParseMessageType data = Inr tag \<and> tag \<noteq> MessageTypeSessionReady \<longrightarrow>
      tts_start (MessageReceived data) u =
        (Some (Errorf (''expected session.ready, got '' @ tag)), u)) \<and>
   (fst (tts_waitReady sel u) \<noteq> None \<longrightarrow> snd (tts_waitReady sel u) = u)"
  using stt_start_ok[of sel pick s] stt_start_other[of data tag pick s]
    stt_waitReady_fail[of sel pick s] stt_messageLoop_ID[of pd ins s]
    tts_start_ok[of sel u] tts_start_other[of data tag u] tts_waitReady_fail[of sel u]
  by blast

lemma ready_frame_parse:
  "ParseMessageType ready_frame = Inr ''session.ready''"
  "ParseMessage ready_frame = Inr (SessionReady ''session.ready'' ''sess-42'')"
  by (simp_all add: ready_frame_def codec_defs fold_simps MessageType_defs)

lemma partial_frame_parse:
  "ParseMessageType partial_frame = Inr ''transcript.partial''"
  "ParseMessage partial_frame = Inr (TranscriptPartial ''transcript.partial'' ''hel'')"
  by (simp_all add: partial_frame_def codec_defs fold_simps MessageType_defs)

theorem start_needs_session_ready_witness:
  "fst (stt_start (MessageReceived ready_frame) True (stt_newSession live_conn zero_SessionParams))
     = None \<and>
   ID (snd (stt_start (MessageReceived ready_frame) True
              (stt_newSession live_conn zero_SessionParams))) = ''sess-42'' \<and>
   stt_start (MessageReceived partial_frame) True (stt_newSession live_conn zero_SessionParams) =
     (Some (Errorf ''expected session.ready, got transcript.partial''),
      stt_newSession live_conn zero_SessionParams) \<and>
   ID (stt_newSession live_conn zero_SessionParams) = [] \<and>
   \<not> ready (stt_newSession live_conn zero_SessionParams) \<and>
   fst (tts_start (MessageReceived ready_frame) (tts_newSession live_conn zero_SessionParams))
     = None \<and>
   ID (snd (tts_start (MessageReceived ready_frame)
              (tts_newSession live_conn zero_SessionParams))) = ''sess-42'' \<and>
   tts_start (MessageReceived partial_frame) (tts_newSession live_conn zero_SessionParams) =
     (Some (Errorf ''expected session.ready, got transcript.partial''),
      tts_newSession live_conn zero_SessionParams) \<and>
   ID (tts_newSession live_conn zero_SessionParams) = [] \<and>
   \<not> ready (tts_newSession live_conn zero_SessionParams)"
proof -
  let ?s = "stt_newSession live_conn zero_SessionParams"
  let ?u = "tts_newSession live_conn zero_SessionParams"
  have ok1: "fst (stt_start (MessageReceived ready_frame) True ?s) = None"
    by (simp add: stt_start_def stt_waitReady_def Receive_def ready_frame_parse
        MessageType_defs stt_sendConfig_def SendJSON_def stt_newSession_def live_conn_def
        NewConn_def sendEvent_def)
  have ok2: "fst (tts_start (MessageReceived ready_frame) ?u) = None"
    by (simp add: tts_start_def tts_waitReady_def Receive_def ready_frame_parse
        MessageType_defs tts_sendConfig_def SendJSON_def tts_newSession_def live_conn_def
        NewConn_def)
  have ne: "''transcript.partial'' \<noteq> MessageTypeSessionReady"
    by (simp add: MessageType_defs)
  have fresh: "ID ?s = []" "\<not> ready ?s" "ID ?u = []" "\<not> ready ?u"
    by (simp_all add: stt_newSession_def tts_newSession_def)
  show ?thesis
    using ok1 ok2 ne fresh ready_frame_parse partial_frame_parse
      start_needs_session_ready[of "MessageReceived ready_frame" True ?s partial_frame
        "''transcript.partial''" True "[]" ?u]
    by auto
qed

section \<open>Properties of the recognition loop\<close>



lemma stt_handleMessage_open [simp]:
  "eventsCh_closed (stt_handleMessage pick data s) = eventsCh_closed s"
  by (simp add: stt_handleMessage_def handlePartial_def handleFinal_def stt_handleError_def
      split: sum.splits message.splits)









section \<open>Frames that the message loops skip\<close>

lemma bad_delta_frame_parse:
  "ParseMessageType bad_delta_frame = Inr ''audio.delta''"
  "ParseMessage bad_delta_frame = Inr (AudioDelta ''audio.delta'' ''%%%%'')"
  "DecodeString ''%%%%'' = Inl CorruptInputError"
  by (simp_all add: bad_delta_frame_def codec_defs fold_simps MessageType_defs
      DecodeString_def b64_value_def b64_alphabet_def)

lemma tts_idle_eq:
  "tts_idle =
     (tts_newSession live_conn zero_SessionParams)
       \<lparr>ID := ''sess-42'', ready := True,
        conn := live_conn\<lparr>wire := [Doc (marshal (NewSessionConfig zero_SessionParams))]\<rparr>\<rparr>"
  by (simp add: tts_idle_def tts_start_def tts_waitReady_def Receive_def ready_frame_parse
      MessageType_defs tts_sendConfig_def SendJSON_def tts_newSession_def live_conn_def
      NewConn_def)

lemma tts_in_round_eq:
  "tts_in_round =
     tts_idle\<lparr>streams := [newAudioStream], currentStream := Some 0, synthesizing := True,
       roundCount := 1, commitSentAt := Some 5,
       conn := live_conn\<lparr>wire := [Doc (marshal (NewSessionConfig zero_SessionParams)),
                                    Doc (marshal (NewTextAppend ''hello'')),
                                    Doc (marshal NewInputCommit)]\<rparr>\<rparr>"
  by (simp add: tts_in_round_def SynthesizeStream_def tts_idle_eq tts_newSession_def
      SendJSON_def live_conn_def NewConn_def Let_def)

lemma stt_skip:
  assumes "(\<exists>e. ParseMessageType data = Inl e) \<or>
     (\<exists>tag. ParseMessageType data = Inr tag \<and> tag \<noteq> MessageTypeTranscriptPartial \<and>
        tag \<noteq> MessageTypeTranscriptFinal \<and> tag \<noteq> MessageTypeInputDone \<and>
        tag \<noteq> MessageTypeProcessing \<and> tag \<noteq> MessageTypeError)"
  shows "stt_handleMessage pick data s = s"
  using assms by (auto simp: stt_handleMessage_def)

lemma tts_skip:
  assumes "(\<exists>e. ParseMessageType data = Inl e) \<or>
     (\<exists>tag. ParseMessageType data = Inr tag \<and> tag \<noteq> MessageTypeAudioDelta \<and>
        tag \<noteq> MessageTypeAudioDone \<and> tag \<noteq> MessageTypeError)"
  shows "tts_handleMessage now pick data u = Some u"
  using assms by (auto simp: tts_handleMessage_def)

lemma tts_undecodable:
  assumes "ParseMessage data = Inr (AudioDelta t audio)" "DecodeString audio = Inl e"
  shows "tts_handleMessage now pick data u =
           Some (u\<lparr>firstChunkReceivedAt :=
                     Some (case firstChunkReceivedAt u of None \<Rightarrow> now | Some x \<Rightarrow> x)\<rparr>)"
proof -
  from ParseMessage_tag[OF assms(1)] have "ParseMessageType data = Inr MessageTypeAudioDelta"
    by simp
  with assms show ?thesis
    by (cases "firstChunkReceivedAt u")
       (simp_all add: tts_handleMessage_def handleAudioDelta_def)
qed

text \<open>
  C10 (as amended). A frame that is not JSON (or whose tag cannot be read), and a frame
  whose tag the loop does not dispatch on, leave the session exactly as it was, in the
  recognition loop and in the synthesis loop, and the loop goes on with the next case.
  An \<open>audio.delta\<close> frame whose payload is not base64 pushes no chunk and leaves the
  sequence number, the round and the streams as they were, and the loop goes on; but
  the time of the first chunk is taken before the frame is decoded, so the frame sets
  \<open>firstChunkReceivedAt\<close> when it was unset.
\<close>

theorem skipped_frames_amended:
  "((\<exists>e. ParseMessageType data = Inl e) \<or>
     (\<exists>tag. ParseMessageType data = Inr tag \<and> tag \<noteq> MessageTypeTranscriptPartial \<and>
        tag \<noteq> MessageTypeTranscriptFinal \<and> tag \<noteq> MessageTypeInputDone \<and>
        tag \<noteq> MessageTypeProcessing \<and> tag \<noteq> MessageTypeError) \<longrightarrow>
      stt_handleMessage pick data s = s \<and>
      stt_messageLoop pd ((SelMessage data, pick) # rest) s = stt_messageLoop pd rest s) \<and>
   ((\<exists>e. ParseMessageType data = Inl e) \<or>
     (\<exists>tag. ParseMessageType data = Inr tag \<and> tag \<noteq> MessageTypeAudioDelta \<and>
        tag \<noteq> MessageTypeAudioDone \<and> tag \<noteq> MessageTypeError) \<longrightarrow>
      tts_handleMessage now pick data u = Some u \<and>
      tts_messageLoop ((TSelMessage data, now, pick) # later) u = tts_messageLoop later u) \<and>
   (ParseMessage data = Inr (AudioDelta t audio) \<and> (\<exists>e. DecodeString audio = Inl e) \<longrightarrow>
      tts_handleMessage now pick data u =
        Some (u\<lparr>firstChunkReceivedAt :=
                  Some (case firstChunkReceivedAt u of None \<Rightarrow> now | Some x \<Rightarrow> x)\<rparr>) \<and>
      tts_messageLoop ((TSelMessage data, now, pick) # later) u =
        tts_messageLoop later
          (u\<lparr>firstChunkReceivedAt :=
                Some (case firstChunkReceivedAt u of None \<Rightarrow> now | Some x \<Rightarrow> x)\<rparr>))"
proof -
  have a: "stt_handleMessage pick data s = s \<and>
      stt_messageLoop pd ((SelMessage data, pick) # rest) s = stt_messageLoop pd rest s"
    if "(\<exists>e. ParseMessageType data = Inl e) \<or>
     (\<exists>tag. ParseMessageType data = Inr tag \<and> tag \<noteq> MessageTypeTranscriptPartial \<and>
        tag \<noteq> MessageTypeTranscriptFinal \<and> tag \<noteq> MessageTypeInputDone \<and>
        tag \<noteq> MessageTypeProcessing \<and> tag \<noteq> MessageTypeError)"
    using stt_skip[OF that] by simp
  have b: "tts_handleMessage now pick data u = Some u \<and>
      tts_messageLoop ((TSelMessage data, now, pick) # later) u = tts_messageLoop later u"
    if "(\<exists>e. ParseMessageType data = Inl e) \<or>
     (\<exists>tag. ParseMessageType data = Inr tag \<and> tag \<noteq> MessageTypeAudioDelta \<and>
        tag \<noteq> MessageTypeAudioDone \<and> tag \<noteq> MessageTypeError)"
    using tts_skip[OF that] by simp
  have c: "tts_handleMessage now pick data u =
        Some (u\<lparr>firstChunkReceivedAt :=
                  Some (case firstChunkReceivedAt u of None \<Rightarrow> now | Some x \<Rightarrow> x)\<rparr>) \<and>
      tts_messageLoop ((TSelMessage data, now, pick) # later) u =
        tts_messageLoop later
          (u\<lparr>firstChunkReceivedAt :=
                Some (case firstChunkReceivedAt u of None \<Rightarrow> now | Some x \<Rightarrow> x)\<rparr>)"
    if "ParseMessage data = Inr (AudioDelta t audio)" "\<exists>e. DecodeString audio = Inl e"
    using that tts_undecodable[of data t audio _ now pick u] by auto
  from a b c show ?thesis by blast
qed

theorem skipped_frames_amended_witness:
  "stt_handleMessage True Garbage stt_active = stt_active \<and>
   stt_handleMessage True ready_frame stt_active = stt_active \<and>
   tts_handleMessage 7 True Garbage tts_in_round = Some tts_in_round \<and>
   tts_handleMessage 7 True partial_frame tts_in_round = Some tts_in_round \<and>
   tts_handleMessage 7 True bad_delta_frame tts_in_round =
     Some (tts_in_round\<lparr>firstChunkReceivedAt := Some 7\<rparr>)"
proof -
  have g: "\<exists>e. ParseMessageType Garbage = Inl e"
    by (simp add: ParseMessageType_def Unmarshal_def)
  have r: "\<exists>tag. ParseMessageType ready_frame = Inr tag \<and> tag \<noteq> MessageTypeTranscriptPartial \<and>
        tag \<noteq> MessageTypeTranscriptFinal \<and> tag \<noteq> MessageTypeInputDone \<and>
        tag \<noteq> MessageTypeProcessing \<and> tag \<noteq> MessageTypeError"
    by (simp add: ready_frame_parse MessageType_defs)
  have p: "\<exists>tag. ParseMessageType partial_frame = Inr tag \<and> tag \<noteq> MessageTypeAudioDelta \<and>
        tag \<noteq> MessageTypeAudioDone \<and> tag \<noteq> MessageTypeError"
    by (simp add: partial_frame_parse MessageType_defs)
  have d: "\<exists>e. DecodeString ''%%%%'' = Inl e"
    by (simp add: bad_delta_frame_parse)
  have f: "firstChunkReceivedAt tts_in_round = None"
    by (simp add: tts_in_round_eq tts_idle_eq tts_newSession_def)
  from g skipped_frames_amended[of Garbage True stt_active True "[]" 7 tts_in_round "[]"]
  have 1: "stt_handleMessage True Garbage stt_active = stt_active"
    and 3: "tts_handleMessage 7 True Garbage tts_in_round = Some tts_in_round"
    by blast+
  from r skipped_frames_amended[of ready_frame True stt_active True "[]" 7 tts_in_round "[]"]
  have 2: "stt_handleMessage True ready_frame stt_active = stt_active"
    by blast
  from p skipped_frames_amended[of partial_frame True stt_active True "[]" 7 tts_in_round "[]"]
  have 4: "tts_handleMessage 7 True partial_frame tts_in_round = Some tts_in_round"
    by blast
  from d bad_delta_frame_parse(2) f
    skipped_frames_amended[of bad_delta_frame True stt_active True "[]" 7 tts_in_round "[]"
      "''audio.delta''" "''%%%%''"]
  have 5: "tts_handleMessage 7 True bad_delta_frame tts_in_round =
     Some (tts_in_round\<lparr>firstChunkReceivedAt := Some 7\<rparr>)"
    by simp
  from 1 2 3 4 5 show ?thesis by simp
qed

theorem undecodable_delta_changes_state_counterexample:
  "ParseMessage bad_delta_frame = Inr (AudioDelta ''audio.delta'' ''%%%%'') \<and>
   DecodeString ''%%%%'' = Inl CorruptInputError \<and>
   firstChunkReceivedAt tts_in_round = None \<and>
   tts_handleMessage 7 True bad_delta_frame tts_in_round =
     Some (tts_in_round\<lparr>firstChunkReceivedAt := Some 7\<rparr>) \<and>
   tts_handleMessage 7 True bad_delta_frame tts_in_round \<noteq> Some tts_in_round"
proof -
  have f: "firstChunkReceivedAt tts_in_round = None"
    by (simp add: tts_in_round_eq tts_idle_eq tts_newSession_def)
  have h: "tts_handleMessage 7 True bad_delta_frame tts_in_round =
     Some (tts_in_round\<lparr>firstChunkReceivedAt := Some 7\<rparr>)"
    using f by (simp add: tts_handleMessage_def handleAudioDelta_def bad_delta_frame_parse
        MessageType_defs)
  have "firstChunkReceivedAt (tts_in_round\<lparr>firstChunkReceivedAt := Some 7\<rparr>) \<noteq>
        firstChunkReceivedAt tts_in_round"
    using f by simp
  then have "tts_in_round\<lparr>firstChunkReceivedAt := Some 7\<rparr> \<noteq> tts_in_round"
    by metis
  with f h bad_delta_frame_parse show ?thesis by simp
qed

section \<open>Properties of the synthesis rounds\<close>








lemma on_stream_current [simp]:
  "currentStream (on_stream a f s) = currentStream s"
  by (simp add: on_stream_def split: option.splits)

lemma detach_current [simp]: "currentStream (detach s) = None"
  by (simp add: detach_def)













section \<open>Properties of the audio stream\<close>





















section \<open>Properties of Close\<close>










lemma apply_steps_0 [simp]: "apply_steps body 0 s = s"
  by (simp add: apply_steps_def)





lemma Once_Do_closeOnce [simp]: "closeOnce (Once_Do body s)"
  by (simp add: Once_Do_def)




















lemma pushDone_signalled [simp]: "stream_closeOnce (pushDone st)"
  by (simp add: pushDone_def)












section \<open>Properties of ConnectWithRetry\<close>

lemma backoffs_Suc: "backoffs base (Suc m) = base # backoffs (base * 2) m"
  by (simp add: backoffs_def map_upt_Suc mult.assoc del: upt_Suc)

lemma retry_loop_waits:
  assumes "0 < i" "retry_loop maxR r i b lastErr env c wl = (res, c', wl')"
  shows "\<exists>m \<le> r. wl' = wl @ backoffs b m"
  using assms
proof (induction r arbitrary: i b lastErr c wl)
  case 0
  then show ?case by (auto simp: backoffs_def)
next
  case (Suc r)
  show ?case
  proof (cases "cancelled (env i) \<noteq> None")
    case True
    with Suc.prems have "wl' = wl" by simp
    then show ?thesis by (auto simp: backoffs_def intro: exI[of _ 0])
  next
    case False
    show ?thesis
    proof (cases "Connect (dialled (env i)) (dial_started (env i)) (dial_finished (env i)) c")
      case (Pair e c1)
      show ?thesis
      proof (cases e)
        case None
        with Suc.prems False Pair have "wl' = wl @ [b]" by simp
        then have "wl' = wl @ backoffs b 1" by (simp add: backoffs_def)
        then show ?thesis by (intro exI[of _ 1]) simp
      next
        case (Some err)
        with Suc.prems False Pair
        have "retry_loop maxR r (Suc i) (b * 2) (Some err) env c1 (wl @ [b]) = (res, c', wl')"
          by simp
        from Suc.IH[OF _ this] obtain m where "m \<le> r" "wl' = (wl @ [b]) @ backoffs (b * 2) m"
          by auto
        then have "Suc m \<le> Suc r" "wl' = wl @ backoffs b (Suc m)"
          by (simp_all add: backoffs_Suc)
        then show ?thesis by blast
      qed
    qed
  qed
qed

lemma Connect_refused:
  "\<not> connected c \<Longrightarrow>
     Connect (DialFailed err None) t0 t1 c =
       (Some (Wrapf ''websocket connect failed'' err), c\<lparr>connectStartAt := Some t0\<rparr>)"
  by (simp add: Connect_def)

lemma retry_loop_exhausted:
  assumes "0 < i" "fails_between env errs i (i + r)" "\<not> connected c"
  shows "\<exists>c'. retry_loop maxR r i b lastErr env c wl =
     (Some (ConnectFailedAfter maxR
        (if r = 0 then lastErr else Some (Wrapf ''websocket connect failed'' (errs (i + r - 1))))),
      c', wl @ backoffs b r) \<and> \<not> connected c'"
  using assms
proof (induction r arbitrary: i b lastErr c wl)
  case 0
  then show ?case by (simp add: backoffs_def)
next
  case (Suc r)
  from Suc.prems(2) have here: "cancelled (env i) = None" "dialled (env i) = DialFailed (errs i) None"
    and rest: "fails_between env errs (Suc i) (Suc i + r)"
    by (auto simp: fails_between_def)
  let ?c1 = "c\<lparr>connectStartAt := Some (dial_started (env i))\<rparr>"
  have c1: "\<not> connected ?c1" using Suc.prems(3) by simp
  from Suc.IH[OF _ rest c1, of "b * 2" "Some (Wrapf ''websocket connect failed'' (errs i))" "wl @ [b]"]
  obtain c' where "retry_loop maxR r (Suc i) (b * 2)
       (Some (Wrapf ''websocket connect failed'' (errs i))) env ?c1 (wl @ [b]) =
     (Some (ConnectFailedAfter maxR
        (if r = 0 then Some (Wrapf ''websocket connect failed'' (errs i))
         else Some (Wrapf ''websocket connect failed'' (errs (Suc i + r - 1))))),
      c', (wl @ [b]) @ backoffs (b * 2) r)" "\<not> connected c'"
    by auto
  then show ?case
    using Suc.prems(1,3) here
    by (cases "r = 0") (auto simp: Connect_refused backoffs_Suc)
qed

lemma retry_loop_cancelled:
  assumes "0 < i" "fails_between env errs i (i + d)" "\<not> connected c"
    "cancelled (env (i + d)) = Some e" "d < r"
  shows "\<exists>c'. retry_loop maxR r i b lastErr env c wl = (Some e, c', wl @ backoffs b d)"
  using assms
proof (induction d arbitrary: i r b lastErr c wl)
  case 0
  then obtain r' where "r = Suc r'" by (cases r) auto
  with 0 show ?case by (simp add: backoffs_def)
next
  case (Suc d)
  from Suc.prems(5) obtain r' where r: "r = Suc r'" "d < r'" by (cases r) auto
  from Suc.prems(2) have here: "cancelled (env i) = None" "dialled (env i) = DialFailed (errs i) None"
    and rest: "fails_between env errs (Suc i) (Suc i + d)"
    by (auto simp: fails_between_def)
  let ?c1 = "c\<lparr>connectStartAt := Some (dial_started (env i))\<rparr>"
  have c1: "\<not> connected ?c1" using Suc.prems(3) by simp
  from Suc.prems(4) have ce: "cancelled (env (Suc i + d)) = Some e" by simp
  from Suc.IH[OF _ rest c1 ce r(2), of "b * 2" "Some (Wrapf ''websocket connect failed'' (errs i))"
      "wl @ [b]"]
  obtain c' where "retry_loop maxR r' (Suc i) (b * 2)
       (Some (Wrapf ''websocket connect failed'' (errs i))) env ?c1 (wl @ [b]) =
     (Some e, c', (wl @ [b]) @ backoffs (b * 2) d)"
    by auto
  then show ?case
    using Suc.prems(1,3) here r(1) by (auto simp: Connect_refused backoffs_Suc)
qed

lemma retry_loop_connected:
  assumes "0 < i" "fails_between env errs i (i + d)" "\<not> connected c"
    "cancelled (env (i + d)) = None" "dialled (env (i + d)) = Dialled" "d < r"
  shows "\<exists>c'. retry_loop maxR r i b lastErr env c wl = (None, c', wl @ backoffs b (Suc d)) \<and>
     connected c'"
  using assms
proof (induction d arbitrary: i r b lastErr c wl)
  case 0
  then obtain r' where "r = Suc r'" by (cases r) auto
  with 0 show ?case by (simp add: backoffs_def Connect_def)
next
  case (Suc d)
  from Suc.prems(6) obtain r' where r: "r = Suc r'" "d < r'" by (cases r) auto
  from Suc.prems(2) have here: "cancelled (env i) = None" "dialled (env i) = DialFailed (errs i) None"
    and rest: "fails_between env errs (Suc i) (Suc i + d)"
    by (auto simp: fails_between_def)
  let ?c1 = "c\<lparr>connectStartAt := Some (dial_started (env i))\<rparr>"
  have c1: "\<not> connected ?c1" using Suc.prems(3) by simp
  from Suc.prems(4,5) have ok: "cancelled (env (Suc i + d)) = None" "dialled (env (Suc i + d)) = Dialled"
    by simp_all
  from Suc.IH[OF _ rest c1 ok r(2), of "b * 2" "Some (Wrapf ''websocket connect failed'' (errs i))"
      "wl @ [b]"]
  obtain c' where "retry_loop maxR r' (Suc i) (b * 2)
       (Some (Wrapf ''websocket connect failed'' (errs i))) env ?c1 (wl @ [b]) =
     (None, c', (wl @ [b]) @ backoffs (b * 2) (Suc d))" "connected c'"
    by auto
  then show ?case
    using Suc.prems(1,3) here r(1) by (auto simp: Connect_refused backoffs_Suc)
qed

lemma ConnectWithRetry_waits:
  assumes "ConnectWithRetry cfg env c = (res, c', wl)"
  shows "length wl \<le> nat (MaxReconnects cfg) \<and> wl = backoffs (ReconnectBackoff cfg) (length wl)"
proof (cases "nat (MaxReconnects cfg + 1)")
  case 0
  with assms show ?thesis by (simp add: ConnectWithRetry_def backoffs_def)
next
  case (Suc r)
  then have r: "r = nat (MaxReconnects cfg)" by arith
  show ?thesis
  proof (cases "Connect (dialled (env 0)) (dial_started (env 0)) (dial_finished (env 0)) c")
    case (Pair e c1)
    show ?thesis
    proof (cases e)
      case None
      with assms Suc Pair show ?thesis by (simp add: ConnectWithRetry_def backoffs_def)
    next
      case (Some err)
      with assms Suc Pair
      have "retry_loop (MaxReconnects cfg) r (Suc 0) (ReconnectBackoff cfg) (Some err) env c1 [] =
              (res, c', wl)"
        by (simp add: ConnectWithRetry_def)
      from retry_loop_waits[OF _ this] obtain m where "m \<le> r" "wl = backoffs (ReconnectBackoff cfg) m"
        by auto
      with r show ?thesis by (simp add: backoffs_def)
    qed
  qed
qed

lemma ConnectWithRetry_exhausted:
  assumes "\<not> connected c" "0 \<le> MaxReconnects cfg"
    "fails_between env errs 0 (nat (MaxReconnects cfg) + 1)"
  shows "\<exists>c'. ConnectWithRetry cfg env c =
     (Some (ConnectFailedAfter (MaxReconnects cfg)
        (Some (Wrapf ''websocket connect failed'' (errs (nat (MaxReconnects cfg)))))),
      c', backoffs (ReconnectBackoff cfg) (nat (MaxReconnects cfg))) \<and> \<not> connected c'"
proof -
  let ?r = "nat (MaxReconnects cfg)"
  have n: "nat (MaxReconnects cfg + 1) = Suc ?r" using assms(2) by arith
  from assms(3) have here: "dialled (env 0) = DialFailed (errs 0) None"
    and rest: "fails_between env errs (Suc 0) (Suc 0 + ?r)"
    by (auto simp: fails_between_def)
  let ?c1 = "c\<lparr>connectStartAt := Some (dial_started (env 0))\<rparr>"
  have c1: "\<not> connected ?c1" using assms(1) by simp
  from retry_loop_exhausted[OF _ rest c1, of "MaxReconnects cfg" "ReconnectBackoff cfg"
      "Some (Wrapf ''websocket connect failed'' (errs 0))" "[]"]
  obtain c' where "retry_loop (MaxReconnects cfg) ?r (Suc 0) (ReconnectBackoff cfg)
       (Some (Wrapf ''websocket connect failed'' (errs 0))) env ?c1 [] =
     (Some (ConnectFailedAfter (MaxReconnects cfg)
        (if ?r = 0 then Some (Wrapf ''websocket connect failed'' (errs 0))
         else Some (Wrapf ''websocket connect failed'' (errs (Suc 0 + ?r - 1))))),
      c', [] @ backoffs (ReconnectBackoff cfg) ?r)" "\<not> connected c'"
    by auto
  then show ?thesis
    using n here assms(1)
    by (cases "?r = 0") (auto simp: ConnectWithRetry_def Connect_refused)
qed

lemma ConnectWithRetry_cancelled:
  assumes "\<not> connected c" "0 < k" "int k \<le> MaxReconnects cfg" "fails_between env errs 0 k"
    "cancelled (env k) = Some e"
  shows "\<exists>c'. ConnectWithRetry cfg env c = (Some e, c', backoffs (ReconnectBackoff cfg) (k - 1))"
proof -
  let ?r = "nat (MaxReconnects cfg)"
  have n: "nat (MaxReconnects cfg + 1) = Suc ?r" using assms(3) by arith
  from assms(2) obtain d where k: "k = Suc d" by (cases k) auto
  from assms(4) k have here: "dialled (env 0) = DialFailed (errs 0) None"
    and rest: "fails_between env errs (Suc 0) (Suc 0 + d)"
    by (auto simp: fails_between_def)
  let ?c1 = "c\<lparr>connectStartAt := Some (dial_started (env 0))\<rparr>"
  have c1: "\<not> connected ?c1" using assms(1) by simp
  have ce: "cancelled (env (Suc 0 + d)) = Some e" using assms(5) k by simp
  have dr: "d < ?r" using assms(3) k by arith
  from retry_loop_cancelled[OF _ rest c1 ce dr, of "MaxReconnects cfg" "ReconnectBackoff cfg"
      "Some (Wrapf ''websocket connect failed'' (errs 0))" "[]"]
  obtain c' where "retry_loop (MaxReconnects cfg) ?r (Suc 0) (ReconnectBackoff cfg)
       (Some (Wrapf ''websocket connect failed'' (errs 0))) env ?c1 [] =
     (Some e, c', [] @ backoffs (ReconnectBackoff cfg) d)"
    by auto
  then show ?thesis
    using n here assms(1) k by (auto simp: ConnectWithRetry_def Connect_refused)
qed

lemma ConnectWithRetry_connected:
  assumes "\<not> connected c" "int k \<le> MaxReconnects cfg" "fails_between env errs 0 k"
    "k = 0 \<or> cancelled (env k) = None" "dialled (env k) = Dialled"
  shows "\<exists>c'. ConnectWithRetry cfg env c = (None, c', backoffs (ReconnectBackoff cfg) k) \<and>
     connected c'"
proof -
  let ?r = "nat (MaxReconnects cfg)"
  have n: "nat (MaxReconnects cfg + 1) = Suc ?r" using assms(2) by arith
  show ?thesis
  proof (cases k)
    case 0
    with assms(1,5) n show ?thesis
      by (simp add: ConnectWithRetry_def Connect_def backoffs_def)
  next
    case (Suc d)
    from assms(3) Suc have here: "dialled (env 0) = DialFailed (errs 0) None"
      and rest: "fails_between env errs (Suc 0) (Suc 0 + d)"
      by (auto simp: fails_between_def)
    let ?c1 = "c\<lparr>connectStartAt := Some (dial_started (env 0))\<rparr>"
    have c1: "\<not> connected ?c1" using assms(1) by simp
    have ok: "cancelled (env (Suc 0 + d)) = None" "dialled (env (Suc 0 + d)) = Dialled"
      using assms(4,5) Suc by simp_all
    have dr: "d < ?r" using assms(2) Suc by arith
    from retry_loop_connected[OF _ rest c1 ok dr, of "MaxReconnects cfg" "ReconnectBackoff cfg"
        "Some (Wrapf ''websocket connect failed'' (errs 0))" "[]"]
    obtain c' where "retry_loop (MaxReconnects cfg) ?r (Suc 0) (ReconnectBackoff cfg)
         (Some (Wrapf ''websocket connect failed'' (errs 0))) env ?c1 [] =
       (None, c', [] @ backoffs (ReconnectBackoff cfg) (Suc d))" "connected c'"
      by auto
    then show ?thesis
      using n here assms(1) Suc by (auto simp: ConnectWithRetry_def Connect_refused)
  qed
qed

lemma backoffs_nth: "j < m \<Longrightarrow> backoffs base m ! j = base * 2 ^ j"
  by (simp add: backoffs_def)

lemma backoff_exact:
  fixes base :: "64 word"
  assumes "0 \<le> sint base" "sint base * 2 ^ j < 2 ^ 63"
  shows "sint (base * 2 ^ j) = sint base * 2 ^ j"
proof -
  have "base * 2 ^ j = word_of_int (sint base * 2 ^ j)"
    by simp
  then have "sint (base * 2 ^ j) = signed_take_bit 63 (sint base * 2 ^ j)"
    by (simp only: sint_sbintrunc') simp
  moreover have "- (2 ^ 63) \<le> sint base * 2 ^ j"
  proof -
    have "0 \<le> sint base * 2 ^ j" using assms(1) by simp
    then show ?thesis by simp
  qed
  ultimately show ?thesis
    using assms(2) by (simp add: signed_take_bit_int_eq_self)
qed

text \<open>
  C7. \<open>ConnectWithRetry\<close> makes one attempt and at most \<open>MaxReconnects\<close> retries. The
  waits that it completes are, in order, the base, twice the base, four times the
  base, ...: the wait before retry \<open>k\<close> is the base times \<open>2 ^ (k - 1)\<close>, computed in
  64 bits, which is the exact product as long as that stays below \<open>2 ^ 63\<close>
  nanoseconds. When the caller's context ends during the wait before retry \<open>k\<close>, the
  call returns the context's error at once, without that attempt. When every attempt
  fails, the call returns the error "connect failed after \<open>MaxReconnects\<close> retries"
  that wraps the error of the last attempt. When the attempt with index \<open>k\<close> is the
  first to succeed, the call returns \<^verbatim>\<open>nil\<close> after exactly \<open>k\<close> waits.
\<close>

theorem ConnectWithRetry_backoff:
  "(ConnectWithRetry cfg env c = (res, c', wl) \<longrightarrow>
      length wl \<le> nat (MaxReconnects cfg) \<and>
      wl = backoffs (ReconnectBackoff cfg) (length wl) \<and>
      (\<forall>j. j < length wl \<longrightarrow> wl ! j = ReconnectBackoff cfg * 2 ^ j)) \<and>
   (0 \<le> sint (ReconnectBackoff cfg) \<and> sint (ReconnectBackoff cfg) * 2 ^ j < 2 ^ 63 \<longrightarrow>
      sint (ReconnectBackoff cfg * 2 ^ j) = sint (ReconnectBackoff cfg) * 2 ^ j) \<and>
   (\<not> connected c \<and> 0 \<le> MaxReconnects cfg \<and>
    fails_between env errs 0 (nat (MaxReconnects cfg) + 1) \<longrightarrow>
      (\<exists>c1. ConnectWithRetry cfg env c =
         (Some (ConnectFailedAfter (MaxReconnects cfg)
            (Some (Wrapf ''websocket connect failed'' (errs (nat (MaxReconnects cfg)))))),
          c1, backoffs (ReconnectBackoff cfg) (nat (MaxReconnects cfg))) \<and> \<not> connected c1)) \<and>
   (\<not> connected c \<and> 0 < k \<and> int k \<le> MaxReconnects cfg \<and> fails_between env errs 0 k \<and>
    cancelled (env k) = Some e \<longrightarrow>
      (\<exists>c1. ConnectWithRetry cfg env c =
         (Some e, c1, backoffs (ReconnectBackoff cfg) (k - 1)))) \<and>
   (\<not> connected c \<and> int k \<le> MaxReconnects cfg \<and> fails_between env errs 0 k \<and>
    (k = 0 \<or> cancelled (env k) = None) \<and> dialled (env k) = Dialled \<longrightarrow>
      (\<exists>c1. ConnectWithRetry cfg env c = (None, c1, backoffs (ReconnectBackoff cfg) k) \<and>
         connected c1))"
proof -
  have a: "length wl \<le> nat (MaxReconnects cfg) \<and>
      wl = backoffs (ReconnectBackoff cfg) (length wl) \<and>
      (\<forall>j. j < length wl \<longrightarrow> wl ! j = ReconnectBackoff cfg * 2 ^ j)"
    if "ConnectWithRetry cfg env c = (res, c', wl)"
  proof -
    from ConnectWithRetry_waits[OF that]
    have l: "length wl \<le> nat (MaxReconnects cfg)"
      and w: "wl = backoffs (ReconnectBackoff cfg) (length wl)"
      by simp_all
    have "wl ! j = ReconnectBackoff cfg * 2 ^ j" if "j < length wl" for j
      using backoffs_nth[OF that, of "ReconnectBackoff cfg"] w by simp
    with l w show ?thesis by blast
  qed
  show ?thesis
    using a backoff_exact[of "ReconnectBackoff cfg" j]
      ConnectWithRetry_exhausted[of c cfg env errs]
      ConnectWithRetry_cancelled[of c k cfg env errs e]
      ConnectWithRetry_connected[of c k cfg env errs]
    by blast
qed

lemma default_backoffs:
  "backoffs (ReconnectBackoff default_retry) (Suc 0) = [1000000000]"
  "backoffs (ReconnectBackoff default_retry) 2 = [1000000000, 2000000000]"
  "backoffs (ReconnectBackoff default_retry) 3 = [1000000000, 2000000000, 4000000000]"
  by (simp_all add: backoffs_def default_retry_def Second_def numeral_2_eq_2 numeral_3_eq_3)

theorem ConnectWithRetry_backoff_witness:
  "(\<exists>c1. ConnectWithRetry default_retry fail_fail_ok NewConn =
      (None, c1, [1000000000, 2000000000]) \<and> connected c1) \<and>
   sum_list [1000000000, 2000000000 :: 64 word] = 3 * Second \<and>
   (\<exists>c1. ConnectWithRetry default_retry always_refused NewConn =
      (Some (ConnectFailedAfter 3
         (Some (Wrapf ''websocket connect failed'' (SocketError ''connection refused'')))),
       c1, [1000000000, 2000000000, 4000000000])) \<and>
   (\<exists>c1. ConnectWithRetry default_retry cancelled_in_second_wait NewConn =
      (Some ContextCanceled, c1, [1000000000])) \<and>
   sint (ReconnectBackoff default_retry * 2 ^ 2) = 4000000000"
proof -
  let ?errs = "\<lambda>i::nat. SocketError ''connection refused''"
  have c: "\<not> connected NewConn" "MaxReconnects default_retry = 3"
    "sint (ReconnectBackoff default_retry) = 1000000000"
    by (simp_all add: NewConn_def default_retry_def Second_def)
  have f: "fails_between fail_fail_ok ?errs 0 2" "dialled (fail_fail_ok 2) = Dialled"
    "cancelled (fail_fail_ok 2) = None"
    "fails_between always_refused ?errs 0 (nat 3 + 1)"
    "fails_between cancelled_in_second_wait ?errs 0 2"
    "cancelled (cancelled_in_second_wait 2) = Some ContextCanceled"
    by (simp_all add: fails_between_def fail_fail_ok_def always_refused_def
        cancelled_in_second_wait_def)
  from c f ConnectWithRetry_backoff[of default_retry fail_fail_ok NewConn None NewConn "[]" 2
      ?errs 2 ContextCanceled]
  have 1: "\<exists>c1. ConnectWithRetry default_retry fail_fail_ok NewConn =
      (None, c1, [1000000000, 2000000000]) \<and> connected c1"
    and 5: "sint (ReconnectBackoff default_retry * 2 ^ 2) = 4000000000"
    by (simp_all add: default_backoffs)
  from c f ConnectWithRetry_backoff[of default_retry always_refused NewConn None NewConn "[]" 2
      ?errs 2 ContextCanceled]
  have 3: "\<exists>c1. ConnectWithRetry default_retry always_refused NewConn =
      (Some (ConnectFailedAfter 3
         (Some (Wrapf ''websocket connect failed'' (SocketError ''connection refused'')))),
       c1, [1000000000, 2000000000, 4000000000])"
    by (auto simp: default_backoffs)
  from c f ConnectWithRetry_backoff[of default_retry cancelled_in_second_wait NewConn None
      NewConn "[]" 2 ?errs 2 ContextCanceled]
  have 4: "\<exists>c1. ConnectWithRetry default_retry cancelled_in_second_wait NewConn =
      (Some ContextCanceled, c1, [1000000000])"
    by (simp add: default_backoffs)
  have 2: "sum_list [1000000000, 2000000000 :: 64 word] = 3 * Second"
    by (simp add: Second_def)
  from 1 2 3 4 5 show ?thesis by blast
qed

section \<open>The idle timer of RecognizeFile and RecognizeBytes\<close>

lemma sint_recognizeIdleTimeout:
  "sint recognizeIdleTimeout = 10000000000"
  by (simp add: recognizeIdleTimeout_def Second_def)

lemma on_event_goes_on:
  assumes "goes_on event"
  shows "fst (on_event now event st) = False"
  using assms by (cases "ev_Type event") (simp_all add: on_event_def goes_on_def Let_def)

lemma on_event_committed:
  "committed (snd (on_event now event st)) = committed st"
  by (cases "ev_Type event") (simp_all add: on_event_def Let_def)

lemma on_event_idleTimer:
  "idleTimer (snd (on_event now event st)) =
     (if committed st then Some (now + sint recognizeIdleTimeout) else idleTimer st)"
  by (cases "ev_Type event") (simp_all add: on_event_def Let_def)

lemma on_event_texts:
  "texts (snd (on_event now event st)) =
     texts st @ map ev_Text (filter is_final [event])"
  by (cases "ev_Type event") (simp_all add: on_event_def Let_def is_final_def)

lemma on_event_segments:
  "res_Segments (result (snd (on_event now event st))) =
     res_Segments (result st) @ segments_of [event]"
  by (cases "ev_Type event")
    (simp_all add: on_event_def Let_def is_final_def segments_of_def segment_of_def)

lemma on_event_error:
  "res_Error (result (snd (on_event now event st))) = error_of [event] (res_Error (result st))"
  by (cases "ev_Type event") (simp_all add: on_event_def Let_def)

lemma on_event_sendDoneCh:
  "sendDoneCh (snd (on_event now event st)) = sendDoneCh st"
  by (cases "ev_Type event") (simp_all add: on_event_def Let_def)

lemma error_of_append:
  "error_of (xs @ ys) e = error_of ys (error_of xs e)"
  by (induction xs arbitrary: e) simp_all

lemma segments_of_append:
  "segments_of (xs @ ys) = segments_of xs @ segments_of ys"
  by (simp add: segments_of_def)

lemma error_of_no_error:
  assumes "list_all (\<lambda>event. ev_Type event \<noteq> EventError) events"
  shows "error_of events e = e"
  using assms by (induction events arbitrary: e) simp_all

lemma collected_on_event:
  "collected [event] st (snd (on_event now event st))"
  unfolding collected_def
  by (simp add: on_event_texts on_event_segments on_event_error)

lemma collected_trans:
  assumes "collected xs st st1" "collected ys st1 st2"
  shows "collected (xs @ ys) st st2"
  using assms by (simp add: collected_def segments_of_append error_of_append)

lemma collected_Nil: "collected [] st st"
  by (simp add: collected_def segments_of_def)

lemma loop_event:
  assumes "goes_on event"
    and "case idleTimer st of None \<Rightarrow> True | Some d \<Rightarrow> now \<le> d"
  shows "recognize_loop start ((now, ArrEvent event) # later) st =
     recognize_loop start later (snd (on_event now event st))"
proof -
  obtain b st1 where e: "on_event now event st = (b, st1)"
    by (cases "on_event now event st")
  with on_event_goes_on[OF assms(1), of now st] have "b = False"
    by simp
  with e assms(2) show ?thesis
    by (simp add: recognize_select_def split: option.splits)
qed

text \<open>Before the commit the timer stays stopped, whenever the events arrive.\<close>

lemma before_commit:
  assumes "idleTimer st = None" "\<not> committed st" "list_all goes_on (map snd events)"
  shows "\<exists>st1. recognize_loop start (arrive events @ rest) st = recognize_loop start rest st1 \<and>
     idleTimer st1 = None \<and> \<not> committed st1 \<and> sendDoneCh st1 = sendDoneCh st \<and>
     collected (map snd events) st st1"
  using assms
proof (induction events arbitrary: st)
  case Nil
  then show ?case
    using collected_Nil by (auto simp: arrive_def)
next
  case (Cons p events)
  obtain now event where p: "p = (now, event)"
    by (cases p)
  let ?st = "snd (on_event now event st)"
  from Cons.prems p have g: "goes_on event" "list_all goes_on (map snd events)"
    by simp_all
  have step: "recognize_loop start (arrive (p # events) @ rest) st =
      recognize_loop start (arrive events @ rest) ?st"
    using loop_event[OF g(1), where st = st and now = now and start = start
        and later = "arrive events @ rest"] Cons.prems(1) p
    by (simp add: arrive_def)
  have "idleTimer ?st = None" "\<not> committed ?st"
    using Cons.prems(1,2) by (simp_all add: on_event_idleTimer on_event_committed)
  from Cons.IH[OF this g(2)] obtain st1
    where st1: "recognize_loop start (arrive events @ rest) ?st = recognize_loop start rest st1"
      "idleTimer st1 = None" "\<not> committed st1" "sendDoneCh st1 = sendDoneCh ?st"
      "collected (map snd events) ?st st1"
    by blast
  from collected_trans[OF collected_on_event[of event st now] st1(5)] p
  have "collected (map snd (p # events)) st st1"
    by simp
  with step st1 show ?case
    by (auto simp: on_event_sendDoneCh)
qed

text \<open>
  After the commit every event that arrives before the timer fires sets the timer to
  fire the idle timeout later.
\<close>

lemma after_commit:
  assumes "idleTimer st = Some (t + sint recognizeIdleTimeout)" "committed st"
    and "list_all goes_on (map snd events)" "in_time t (map fst events)"
  shows "\<exists>st1. recognize_loop start (arrive events @ rest) st = recognize_loop start rest st1 \<and>
     idleTimer st1 = Some (expiry t (map fst events)) \<and> collected (map snd events) st st1"
  using assms
proof (induction events arbitrary: st t)
  case Nil
  then show ?case
    using collected_Nil by (auto simp: arrive_def)
next
  case (Cons p events)
  obtain now event where p: "p = (now, event)"
    by (cases p)
  let ?st = "snd (on_event now event st)"
  from Cons.prems p have g: "goes_on event" "list_all goes_on (map snd events)"
    and i: "now \<le> t + sint recognizeIdleTimeout" "in_time now (map fst events)"
    by simp_all
  have step: "recognize_loop start (arrive (p # events) @ rest) st =
      recognize_loop start (arrive events @ rest) ?st"
    using loop_event[OF g(1), where st = st and now = now and start = start
        and later = "arrive events @ rest"] Cons.prems(1) p i(1)
    by (simp add: arrive_def)
  have "idleTimer ?st = Some (now + sint recognizeIdleTimeout)" "committed ?st"
    using Cons.prems(1,2) by (simp_all add: on_event_idleTimer on_event_committed)
  from Cons.IH[OF this g(2) i(2)] obtain st1
    where st1: "recognize_loop start (arrive events @ rest) ?st = recognize_loop start rest st1"
      "idleTimer st1 = Some (expiry now (map fst events))" "collected (map snd events) ?st st1"
    by blast
  from collected_trans[OF collected_on_event[of event st now] st1(3)] p
  have "collected (map snd (p # events)) st st1"
    by simp
  with step st1 p show ?case
    by auto
qed

lemma loop_expired:
  assumes "idleTimer st = Some d" "rest = [] \<or> d < fst (hd rest)"
  shows "recognize_loop start rest st = Some (finish start d st)"
proof (cases rest)
  case Nil
  with assms show ?thesis by simp
next
  case (Cons p later)
  obtain now a where "p = (now, a)"
    by (cases p)
  with Cons assms show ?thesis by simp
qed

lemma loop_waits:
  assumes "idleTimer st = None"
  shows "recognize_loop start [] st = None"
  using assms by simp

lemma finish_collected:
  assumes "collected events recognize_init st"
  shows "finish start d st =
     (Some \<lparr>res_Text = text_of events, res_Segments = segments_of events,
        res_Duration = Since start d, res_Error = error_of events None\<rparr>,
      error_of events None)"
proof -
  have "result st = \<lparr>res_Text = res_Text (result st), res_Segments = res_Segments (result st),
      res_Duration = res_Duration (result st), res_Error = res_Error (result st)\<rparr>"
    by simp
  with assms show ?thesis
    by (simp add: finish_def collected_def recognize_init_def text_of_def Let_def)
qed

lemma loop_commit:
  assumes "sendDoneCh st" "idleTimer st = None"
  shows "recognize_loop start ((now, ArrSendDone None) # later) st =
     recognize_loop start later
       (st\<lparr>committed := True, sendDoneCh := False,
           idleTimer := Some (now + sint recognizeIdleTimeout)\<rparr>)"
  using assms by (simp add: recognize_select_def)

lemma loop_idle_expiry:
  assumes "list_all goes_on (map snd (before @ after))"
    and "in_time t0 (map fst after)"
    and "rest = [] \<or> expiry t0 (map fst after) < fst (hd rest)"
  shows "recognize_loop start
       (arrive before @ (t0, ArrSendDone None) # arrive after @ rest) recognize_init =
     Some (Some \<lparr>res_Text = text_of (map snd (before @ after)),
             res_Segments = segments_of (map snd (before @ after)),
             res_Duration = Since start (expiry t0 (map fst after)),
             res_Error = error_of (map snd (before @ after)) None\<rparr>,
           error_of (map snd (before @ after)) None)"
proof -
  let ?later = "arrive after @ rest"
  from assms(1) have g: "list_all goes_on (map snd before)" "list_all goes_on (map snd after)"
    by simp_all
  have "idleTimer recognize_init = None" "\<not> committed recognize_init"
    by (simp_all add: recognize_init_def)
  from before_commit[OF this g(1), of start "(t0, ArrSendDone None) # ?later"]
  obtain st1 where st1:
    "recognize_loop start (arrive before @ (t0, ArrSendDone None) # ?later) recognize_init =
       recognize_loop start ((t0, ArrSendDone None) # ?later) st1"
    "idleTimer st1 = None" "sendDoneCh st1 = sendDoneCh recognize_init"
    "collected (map snd before) recognize_init st1"
    by blast
  let ?st2 = "st1\<lparr>committed := True, sendDoneCh := False,
    idleTimer := Some (t0 + sint recognizeIdleTimeout)\<rparr>"
  from st1(3) have "sendDoneCh st1"
    by (simp add: recognize_init_def)
  from loop_commit[OF this st1(2)]
  have c: "recognize_loop start ((t0, ArrSendDone None) # ?later) st1 =
      recognize_loop start ?later ?st2" .
  have c2: "collected (map snd before) recognize_init ?st2"
    using st1(4) by (simp add: collected_def)
  have "idleTimer ?st2 = Some (t0 + sint recognizeIdleTimeout)" "committed ?st2"
    by simp_all
  from after_commit[OF this g(2) assms(2), of start rest]
  obtain st3 where st3: "recognize_loop start ?later ?st2 = recognize_loop start rest st3"
    "idleTimer st3 = Some (expiry t0 (map fst after))" "collected (map snd after) ?st2 st3"
    by blast
  from collected_trans[OF c2 st3(3)]
  have "collected (map snd (before @ after)) recognize_init st3"
    by simp
  from finish_collected[OF this] loop_expired[OF st3(2) assms(3)] st1(1) c st3(1)
  show ?thesis
    by simp
qed

lemma loop_never_committed:
  assumes "list_all goes_on (map snd events)"
  shows "recognize_loop start (arrive events) recognize_init = None"
proof -
  have "idleTimer recognize_init = None" "\<not> committed recognize_init"
    by (simp_all add: recognize_init_def)
  from before_commit[OF this assms, of start "[]"] show ?thesis
    by auto
qed

text \<open>
  C5. Take a call of \<^verbatim>\<open>RecognizeFile\<close> or \<^verbatim>\<open>RecognizeBytes\<close> in which events arrive
  (none of them \<open>input.done\<close> or \<open>closed\<close>), then the sending goroutine reports the
  commit as sent at \<open>t0\<close>, then further such events arrive, each at most 10 seconds
  after the one before (the first at most 10 seconds after \<open>t0\<close>), and then nothing
  arrives until more than 10 seconds after the last of them. The call returns at the
  instant the timer fires, 10 seconds after the last event (after \<open>t0\<close> when there was
  none), with the segments and the joined text of all the final events received; the
  error it returns is the one of the last error event received, \<^verbatim>\<open>nil\<close> when there was
  no error event. While the commit has not been reported as sent the timer is stopped:
  with events only, however far apart, the call keeps waiting.
\<close>

theorem idle_expiry_amended:
  assumes "list_all goes_on (map snd (before @ after))"
    and "in_time t0 (map fst after)"
    and "rest = [] \<or> expiry t0 (map fst after) < fst (hd rest)"
  shows "RecognizeFile start (arrive before @ (t0, ArrSendDone None) # arrive after @ rest) =
       Some (Some \<lparr>res_Text = text_of (map snd (before @ after)),
               res_Segments = segments_of (map snd (before @ after)),
               res_Duration = Since start (expiry t0 (map fst after)),
               res_Error = error_of (map snd (before @ after)) None\<rparr>,
             error_of (map snd (before @ after)) None) \<and>
     RecognizeBytes start (arrive before @ (t0, ArrSendDone None) # arrive after @ rest) =
       RecognizeFile start (arrive before @ (t0, ArrSendDone None) # arrive after @ rest) \<and>
     (list_all (\<lambda>event. ev_Type event \<noteq> EventError) (map snd (before @ after)) \<longrightarrow>
        error_of (map snd (before @ after)) None = None) \<and>
     RecognizeFile start (arrive before) = None \<and>
     RecognizeBytes start (arrive before) = None \<and>
     expiry t0 (map fst after) = last (t0 # map fst after) + 10 * sint Second"
proof -
  have e: "expiry t us = last (t # us) + 10 * sint Second" for t us
    by (induction t us rule: expiry.induct)
      (simp_all add: sint_recognizeIdleTimeout Second_def)
  from assms(1) have "list_all goes_on (map snd before)"
    by simp
  from loop_idle_expiry[OF assms, of start] loop_never_committed[OF this, of start]
    error_of_no_error[of "map snd (before @ after)" None] e[of t0 "map fst after"]
  show ?thesis
    unfolding RecognizeFile_def RecognizeBytes_def by blast
qed

theorem idle_expiry_amended_witness:
  "RecognizeFile 0
     [(1000000000, ArrEvent hello_final), (2000000000, ArrSendDone None),
      (5000000000, ArrEvent world_final)] =
   Some (Some \<lparr>res_Text = ''hello world'',
           res_Segments =
             [\<lparr>seg_Text = ''hello'', seg_IsFinal = True, seg_StartTime = 0,
               seg_EndTime = 500000000\<rparr>,
              \<lparr>seg_Text = '' world'', seg_IsFinal = True, seg_StartTime = 500000000,
               seg_EndTime = 1000000000\<rparr>],
           res_Duration = 15000000000, res_Error = None\<rparr>, None) \<and>
   RecognizeBytes 0 [(1000000000, ArrEvent hello_final)] = None"
proof -
  have "list_all goes_on (map snd ([(1000000000, hello_final)] @ [(5000000000, world_final)]))"
    "in_time 2000000000 (map fst [(5000000000 :: int, world_final)])"
    by (simp_all add: goes_on_def hello_final_def world_final_def NewFinalEvent_def
        zero_event_def sint_recognizeIdleTimeout)
  from idle_expiry_amended[OF this, of "[]" 0]
  show ?thesis
    by (simp add: arrive_def text_of_def segments_of_def segment_of_def is_final_def
        hello_final_def world_final_def NewFinalEvent_def zero_event_def Since_def
        sint_recognizeIdleTimeout Millisecond_def Second_def)
qed

text \<open>
  The commit is sent, a final event and then an error event of the gateway arrive,
  and nothing more: no \<open>input.done\<close> ever arrives. The timer fires 10 seconds after the
  error event, and the call returns the segment together with that error, not \<^verbatim>\<open>nil\<close>.
\<close>

theorem idle_expiry_after_error_counterexample:
  "RecognizeFile 0
     [(0, ArrSendDone None), (1000000000, ArrEvent hello_final),
      (2000000000, ArrEvent server_error)] =
   Some (Some \<lparr>res_Text = ''hello'',
           res_Segments =
             [\<lparr>seg_Text = ''hello'', seg_IsFinal = True, seg_StartTime = 0,
               seg_EndTime = 500000000\<rparr>],
           res_Duration = 12000000000,
           res_Error = Some (Errorf ''[PROVIDER_ERROR] upstream failed'')\<rparr>,
         Some (Errorf ''[PROVIDER_ERROR] upstream failed''))"
  by (simp add: RecognizeFile_def recognize_init_def recognize_select_def on_event_def
      finish_def Since_def hello_final_def server_error_def NewFinalEvent_def NewErrorEvent_def
      zero_event_def sint_recognizeIdleTimeout Millisecond_def Let_def)

end
